theory Spec2Isabelle
  imports Complex_Main
begin

section \<open>Values, documents, identifiers\<close>

text \<open>
  Strings are byte lists holding the UTF-8 encoding of the Python string. Every
  character the handlers inspect (hexadecimal digits, newline, comma, double quote) is
  ASCII, so the byte view and the code-point view agree wherever the code looks.
\<close>

text \<open>A store identifier (bson \<open>ObjectId\<close>): the bytes it holds, its \<open>binary\<close>. The store
  assigns identifiers of twelve bytes.\<close>

datatype oid = Oid string

text \<open>The values a loosely typed store document can hold (\<open>Dict[str, Any]\<close>).\<close>

datatype pyval = VNone | VStr string | VInt int | VFloat real | VObjectId oid

text \<open>A Python \<open>dict\<close> with string keys, in insertion order.\<close>

type_synonym doc = "(string \<times> pyval) list"

definition dict_get :: "doc \<Rightarrow> string \<Rightarrow> pyval option" where
  "dict_get d k = map_of d k"

text \<open>\<open>out[k] = v\<close>: overwrite in place when the key is there, append otherwise.\<close>

fun dict_set :: "doc \<Rightarrow> string \<Rightarrow> pyval \<Rightarrow> doc" where
  "dict_set [] k v = [(k, v)]"
| "dict_set ((k', v') # d) k v = (if k' = k then (k, v) # d else (k', v') # dict_set d k v)"

text \<open>Exceptions. Only \<open>HTTPException\<close> is told apart by the handlers' \<open>except\<close> clauses;
  \<open>RequestValidationError\<close> is what the framework raises when a request body does not
  validate against the handler's payload schema.\<close>

datatype verr = Missing string | LiteralError string | GreaterThanEqual string

datatype exn =
    HTTPException nat string
  | RequestValidationError "verr list"
  | ValueError string
  | TypeError string
  | InvalidId string
  | AttributeError string
  | OverflowError string
  | Exception string

subsection \<open>Decimal and hexadecimal rendering\<close>

definition digit_char :: "nat \<Rightarrow> char" where
  "digit_char d = ''0123456789abcdef'' ! (d mod 16)"

fun str_nat_fuel :: "nat \<Rightarrow> nat \<Rightarrow> string" where
  "str_nat_fuel 0 n = [digit_char (n mod 10)]"
| "str_nat_fuel (Suc f) n =
     (if n < 10 then [digit_char n] else str_nat_fuel f (n div 10) @ [digit_char (n mod 10)])"

text \<open>\<open>str(n)\<close> for a natural number: \<open>n\<close> itself is always enough fuel, a number has at
  most \<open>n + 1\<close> decimal digits.\<close>

definition str_nat :: "nat \<Rightarrow> string" where
  "str_nat n = str_nat_fuel n n"


text \<open>A name in single quotes, as Python's error messages show a type or an attribute.\<close>

definition quoted :: "string \<Rightarrow> string" where
  "quoted s = [CHR 0x27] @ s @ [CHR 0x27]"

text \<open>The hexadecimal digits, of either case, and their values.\<close>

definition is_hex :: "char \<Rightarrow> bool" where
  "is_hex c \<longleftrightarrow> c \<in> set ''0123456789abcdefABCDEF''"

definition hex_val :: "char \<Rightarrow> nat" where
  "hex_val c =
     (let n = (of_char c :: nat) in
      if 48 \<le> n \<and> n \<le> 57 then n - 48
      else if 97 \<le> n \<and> n \<le> 102 then n - 87
      else n - 55)"

text \<open>ASCII whitespace: tab, line feed, vertical tab, form feed, carriage return, space.\<close>

definition is_space :: "char \<Rightarrow> bool" where
  "is_space c \<longleftrightarrow> c \<in> set [CHR 0x09, CHR 0x0A, CHR 0x0B, CHR 0x0C, CHR 0x0D, CHR 0x20]"

text \<open>
  \<open>bytes.fromhex(s)\<close> of the standard library: one byte for every pair of adjacent
  hexadecimal digits, ASCII whitespace skipped before a pair and at the end of the string;
  \<open>None\<close> where Python raises \<open>ValueError\<close> (a character that is neither, or a digit
  without its partner).
\<close>

fun fromhex :: "string \<Rightarrow> string option" where
  "fromhex [] = Some []"
| "fromhex [c] = (if is_space c then Some [] else None)"
| "fromhex (c # c' # s) =
     (if is_space c then fromhex (c' # s)
      else if is_hex c \<and> is_hex c' then
        map_option ((#) (char_of (16 * hex_val c + hex_val c'))) (fromhex s)
      else None)"

text \<open>\<open>binascii.hexlify\<close>: two lowercase hexadecimal digits for every byte.\<close>

definition hexlify :: "string \<Rightarrow> string" where
  "hexlify bs =
     concat (map (\<lambda>b. [digit_char ((of_char b :: nat) div 16), digit_char ((of_char b :: nat) mod 16)]) bs)"

subsection \<open>The identifier type of the store\<close>

text \<open>
  \<open>bson.ObjectId\<close> is a library type outside the repository; it is modelled after the
  library. \<open>ObjectId(s)\<close> on a string accepts exactly the strings of 24 characters that
  \<open>bytes.fromhex\<close> parses, and holds the parsed bytes; anything else raises \<open>InvalidId\<close>.
  So a string of 24 hexadecimal digits gives twelve bytes, and a string of 24 characters
  with whitespace between its pairs of digits is accepted too and gives fewer. The text of
  \<open>InvalidId\<close> shows the \<open>repr\<close> of the argument, given here for a string that needs no
  escaping; no handler can surface it, every \<open>ObjectId(s)\<close> follows a passed \<open>is_valid\<close>
  or takes the string form of a stored identifier.
\<close>

definition invalid_id :: "string \<Rightarrow> exn" where
  "invalid_id s = InvalidId (quoted s @
     '' is not a valid ObjectId, it must be a 12-byte input or a 24-character hex string'')"

definition ObjectId :: "string \<Rightarrow> exn + oid" where
  "ObjectId s =
     (if length s = 24 then
        (case fromhex s of
           Some bs \<Rightarrow> Inr (Oid bs)
         | None \<Rightarrow> Inl (invalid_id s))
      else Inl (invalid_id s))"

text \<open>\<open>ObjectId.is_valid(s)\<close>: false on the empty string, otherwise whether \<open>ObjectId(s)\<close>
  can be built.\<close>

definition is_valid :: "string \<Rightarrow> bool" where
  "is_valid s \<longleftrightarrow> s \<noteq> [] \<and> (case ObjectId s of Inr i \<Rightarrow> True | Inl e \<Rightarrow> False)"

text \<open>\<open>str(oid)\<close>: the bytes in hexadecimal.\<close>

fun str_oid :: "oid \<Rightarrow> string" where
  "str_oid (Oid bs) = hexlify bs"

text \<open>\<open>PyObjectId.validate(v)\<close> on a string argument (the only call passes a path string,
  so the \<open>isinstance(v, ObjectId)\<close> branch is not taken).\<close>

definition PyObjectId_validate :: "string \<Rightarrow> exn + oid" where
  "PyObjectId_validate v =
     (if \<not> is_valid v then Inl (ValueError ''Invalid ObjectId'') else ObjectId v)"

text \<open>\<open>str(e)\<close> for an exception.\<close>

fun str_exn :: "exn \<Rightarrow> string" where
  "str_exn (HTTPException s d) = str_nat s @ '': '' @ d"
| "str_exn (RequestValidationError es) = ''validation error''"
| "str_exn (ValueError m) = m"
| "str_exn (TypeError m) = m"
| "str_exn (InvalidId m) = m"
| "str_exn (AttributeError m) = m"
| "str_exn (OverflowError m) = m"
| "str_exn (Exception m) = m"

section \<open>The document store and the request monad\<close>

text \<open>One store access, as the store sees it.\<close>

datatype access =
    FindOne string oid
  | Find string doc
  | InsertOne string
  | Aggregate string

type_synonym database = "string \<Rightarrow> doc list"

text \<open>
  The world a handler runs in: the process-wide store handle \<open>db\<close> (it is \<open>None\<close> when
  the store was not configured, which \<open>test_database\<close> checks for), the counter the
  store draws fresh identifiers from, and the sequence of store accesses made so far.
\<close>

record world =
  db :: "database option"
  next_oid :: nat
  log :: "access list"

text \<open>A handler step: it raises or returns, and leaves a world behind.\<close>

type_synonym 'a io = "world \<Rightarrow> (exn + 'a) \<times> world"

definition io_return :: "'a \<Rightarrow> 'a io" where
  "io_return x = (\<lambda>w. (Inr x, w))"

definition io_raise :: "exn \<Rightarrow> 'a io" where
  "io_raise e = (\<lambda>w. (Inl e, w))"

definition io_lift :: "exn + 'a \<Rightarrow> 'a io" where
  "io_lift r = (\<lambda>w. (r, w))"

definition io_bind :: "'a io \<Rightarrow> ('a \<Rightarrow> 'b io) \<Rightarrow> 'b io" where
  "io_bind m f = (\<lambda>w. case m w of (Inl e, w') \<Rightarrow> (Inl e, w') | (Inr x, w') \<Rightarrow> f x w')"

text \<open>\<open>try: m except ...: h e\<close>.\<close>

definition io_try :: "'a io \<Rightarrow> (exn \<Rightarrow> 'a io) \<Rightarrow> 'a io" where
  "io_try m h = (\<lambda>w. case m w of (Inl e, w') \<Rightarrow> h e w' | (Inr x, w') \<Rightarrow> (Inr x, w'))"

text \<open>\<open>except Exception as e: raise HTTPException(status_code=500, detail=str(e))\<close>.\<close>

definition except_500 :: "exn \<Rightarrow> 'a io" where
  "except_500 e = io_raise (HTTPException 500 (str_exn e))"

text \<open>\<open>except HTTPException: raise\<close> followed by the clause above.\<close>

fun except_http_500 :: "exn \<Rightarrow> 'a io" where
  "except_http_500 (HTTPException s d) = io_raise (HTTPException s d)"
| "except_http_500 e = except_500 e"

subsection \<open>Store operations\<close>

text \<open>\<open>db[name]\<close>: subscripting the handle; the \<open>TypeError\<close> "'NoneType' object is not
  subscriptable" when the handle is \<open>None\<close>.\<close>

definition not_subscriptable :: exn where
  "not_subscriptable = TypeError (quoted ''NoneType'' @ '' object is not subscriptable'')"

definition db_getitem :: "string \<Rightarrow> string io" where
  "db_getitem c = (\<lambda>w. case db w of
       None \<Rightarrow> (Inl not_subscriptable, w)
     | Some d \<Rightarrow> (Inr c, w))"

text \<open>
  Modelled from the spec: the store driver is outside the repository. \<open>find_one\<close> is the
  spec's point lookup by identifier: the first document of the collection whose
  \<open>_id\<close> is the identifier, or \<open>None\<close>.
\<close>

definition lookup :: "database \<Rightarrow> string \<Rightarrow> oid \<Rightarrow> doc option" where
  "lookup d c i = find (\<lambda>x. dict_get x ''_id'' = Some (VObjectId i)) (d c)"

definition find_one :: "string \<Rightarrow> oid \<Rightarrow> doc option io" where
  "find_one c i = (\<lambda>w. case db w of
       None \<Rightarrow> (Inl not_subscriptable, w)
     | Some d \<Rightarrow> (Inr (lookup d c i), w\<lparr>log := log w @ [FindOne c i]\<rparr>))"

text \<open>
  Modelled from the spec: the identifiers the store assigns are unique 24-character
  hexadecimal strings, twelve bytes. The \<open>n\<close>-th identifier drawn holds \<open>n\<close> in twelve
  bytes, most significant first.
\<close>

fun be_bytes :: "nat \<Rightarrow> nat \<Rightarrow> string" where
  "be_bytes 0 n = []"
| "be_bytes (Suc k) n = be_bytes k (n div 256) @ [char_of n]"

definition bytes12 :: "nat \<Rightarrow> string" where
  "bytes12 n = be_bytes 12 n"

definition fresh_oid :: "nat \<Rightarrow> oid" where
  "fresh_oid n = Oid (bytes12 n)"

text \<open>
  What the driver can encode for the store: an integer has to fit eight bytes. The one
  integer the handlers store is an element's quantity, which the schema bounds only from
  below.
\<close>

definition int64 :: "int \<Rightarrow> bool" where
  "int64 i \<longleftrightarrow> - (2 ^ 63) \<le> i \<and> i < 2 ^ 63"

fun encodable :: "pyval \<Rightarrow> bool" where
  "encodable (VInt i) = int64 i"
| "encodable v = True"

definition overflow_error :: exn where
  "overflow_error = OverflowError ''MongoDB can only handle up to 8-byte ints''"

text \<open>
  Modelled from the spec: \<open>database.create_document\<close> is not among the sources. It is the
  spec's point insert: the record's fields become a document with a store-assigned
  identifier, appended to the collection; the identifier comes back as a string. Without
  a store handle it raises. A document the driver cannot encode makes the insert raise
  before anything reaches the store.
\<close>

definition create_document :: "string \<Rightarrow> doc \<Rightarrow> string io" where
  "create_document c data = (\<lambda>w. case db w of
       None \<Rightarrow> (Inl (Exception ''Database not available''), w)
     | Some d \<Rightarrow>
         if list_all (\<lambda>(k, v). encodable v) data then
           (Inr (str_oid (fresh_oid (next_oid w))),
            w\<lparr>db := Some (d(c := d c @ [(''_id'', VObjectId (fresh_oid (next_oid w))) # data])),
              next_oid := Suc (next_oid w),
              log := log w @ [InsertOne c]\<rparr>)
         else (Inl overflow_error, w))"

text \<open>An exact-match query: every pair of the filter is a field of the document.\<close>

definition matches :: "doc \<Rightarrow> doc \<Rightarrow> bool" where
  "matches flt d = list_all (\<lambda>(k, v). dict_get d k = Some v) flt"

text \<open>
  Modelled from the spec: \<open>database.get_documents\<close> is not among the sources. It is the
  spec's filtered lookup by equality map, in store iteration order. Without a store
  handle it raises.
\<close>

definition get_documents :: "string \<Rightarrow> doc \<Rightarrow> doc list io" where
  "get_documents c flt = (\<lambda>w. case db w of
       None \<Rightarrow> (Inl (Exception ''Database not available''), w)
     | Some d \<Rightarrow> (Inr (filter (matches flt) (d c)), w\<lparr>log := log w @ [Find c flt]\<rparr>))"

section \<open>Serialisation\<close>

text \<open>The loop of \<open>serialize_doc\<close>: \<open>out\<close> is built one assignment at a time.\<close>

fun serialize_value :: "pyval \<Rightarrow> pyval" where
  "serialize_value (VObjectId i) = VStr (str_oid i)"
| "serialize_value v = v"

fun serialize_loop :: "doc \<Rightarrow> doc \<Rightarrow> doc" where
  "serialize_loop out [] = out"
| "serialize_loop out ((k, v) # rest) = serialize_loop (dict_set out k (serialize_value v)) rest"

text \<open>\<open>serialize_doc(doc)\<close>; \<open>not doc\<close> holds for \<open>None\<close> and for the empty dict.\<close>

fun serialize_doc :: "doc option \<Rightarrow> doc option" where
  "serialize_doc None = None"
| "serialize_doc (Some d) = (if d = [] then Some d else Some (serialize_loop [] d))"

definition falsy :: "doc option \<Rightarrow> bool" where
  "falsy r \<longleftrightarrow> r = None \<or> r = Some []"

section \<open>Schemas\<close>

text \<open>The validated payload records of \<open>schemas.py\<close>.\<close>

record Project =
  name :: string
  project_type :: string
  location :: "string option"
  contact_name :: "string option"
  contact_phone :: "string option"
  photo_url :: "string option"

record Building =
  project_id :: string
  name :: string
  description :: "string option"

record Element =
  project_id :: string
  building_id :: "string option"
  element_type :: string
  configuration :: "string option"
  "opening" :: "string option"
  height_mm :: "real option"
  width_mm :: "real option"
  depth_mm :: "real option"
  thickness_mm :: "real option"
  quantity :: int
  notes_text :: "string option"
  notes_audio_url :: "string option"
  photo_url :: "string option"

fun opt_str :: "string option \<Rightarrow> pyval" where
  "opt_str None = VNone"
| "opt_str (Some s) = VStr s"

fun opt_float :: "real option \<Rightarrow> pyval" where
  "opt_float None = VNone"
| "opt_float (Some x) = VFloat x"

text \<open>The record as a dict, every declared field present, in declaration order.\<close>

definition dump_Project :: "Project \<Rightarrow> doc" where
  "dump_Project p =
     [(''name'', VStr (Project.name p)),
      (''project_type'', VStr (project_type p)),
      (''location'', opt_str (location p)),
      (''contact_name'', opt_str (contact_name p)),
      (''contact_phone'', opt_str (contact_phone p)),
      (''photo_url'', opt_str (Project.photo_url p))]"

definition dump_Building :: "Building \<Rightarrow> doc" where
  "dump_Building b =
     [(''project_id'', VStr (Building.project_id b)),
      (''name'', VStr (Building.name b)),
      (''description'', opt_str (description b))]"

definition dump_Element :: "Element \<Rightarrow> doc" where
  "dump_Element e =
     [(''project_id'', VStr (Element.project_id e)),
      (''building_id'', opt_str (building_id e)),
      (''element_type'', VStr (element_type e)),
      (''configuration'', opt_str (configuration e)),
      (''opening'', opt_str (opening e)),
      (''height_mm'', opt_float (height_mm e)),
      (''width_mm'', opt_float (width_mm e)),
      (''depth_mm'', opt_float (depth_mm e)),
      (''thickness_mm'', opt_float (thickness_mm e)),
      (''quantity'', VInt (quantity e)),
      (''notes_text'', opt_str (notes_text e)),
      (''notes_audio_url'', opt_str (notes_audio_url e)),
      (''photo_url'', opt_str (Element.photo_url e))]"

section \<open>Request handlers\<close>

subsection \<open>Projects\<close>

definition create_project :: "Project \<Rightarrow> doc option io" where
  "create_project payload =
     io_try
       (io_bind (create_document ''project'' (dump_Project payload)) (\<lambda>inserted_id.
        io_bind (db_getitem ''project'') (\<lambda>c.
        io_bind (io_lift (ObjectId inserted_id)) (\<lambda>i.
        io_bind (find_one c i) (\<lambda>doc.
        io_return (serialize_doc doc))))))
       except_500"

definition list_projects :: "doc option list io" where
  "list_projects =
     io_try
       (io_bind (get_documents ''project'' []) (\<lambda>docs.
        io_return (map (\<lambda>d. serialize_doc (Some d)) docs)))
       except_500"

definition get_project :: "string \<Rightarrow> doc option io" where
  "get_project pid =
     io_try
       (io_bind (db_getitem ''project'') (\<lambda>c.
        io_bind (io_lift (PyObjectId_validate pid)) (\<lambda>i.
        io_bind (find_one c i) (\<lambda>doc.
        if falsy doc then io_raise (HTTPException 404 ''Project not found'')
        else io_return (serialize_doc doc)))))
       except_http_500"

subsection \<open>Buildings\<close>

definition create_building :: "Building \<Rightarrow> doc option io" where
  "create_building payload =
     (let pid = Building.project_id payload in
      if \<not> is_valid pid then io_raise (HTTPException 400 ''Invalid project_id'')
      else
        io_bind (db_getitem ''project'') (\<lambda>c.
        io_bind (io_lift (ObjectId pid)) (\<lambda>i.
        io_bind (find_one c i) (\<lambda>parent.
        if falsy parent then io_raise (HTTPException 404 ''Parent project not found'')
        else
          io_try
            (io_bind (create_document ''building'' (dump_Building payload)) (\<lambda>inserted_id.
             io_bind (db_getitem ''building'') (\<lambda>c.
             io_bind (io_lift (ObjectId inserted_id)) (\<lambda>i.
             io_bind (find_one c i) (\<lambda>doc.
             io_return (serialize_doc doc))))))
            except_500))))"

definition list_buildings :: "string \<Rightarrow> doc option list io" where
  "list_buildings pid =
     io_try
       (if \<not> is_valid pid then io_raise (HTTPException 400 ''Invalid project_id'')
        else
          io_bind (get_documents ''building'' [(''project_id'', VStr pid)]) (\<lambda>docs.
          io_return (map (\<lambda>d. serialize_doc (Some d)) docs)))
       except_http_500"

subsection \<open>Elements\<close>

text \<open>\<open>if payload.building_id:\<close> holds for a string that is neither \<open>None\<close> nor empty.\<close>

fun truthy :: "string option \<Rightarrow> bool" where
  "truthy None = False"
| "truthy (Some s) = (s \<noteq> [])"

fun str_of :: "string option \<Rightarrow> string" where
  "str_of None = []"
| "str_of (Some s) = s"

definition create_element :: "Element \<Rightarrow> doc option io" where
  "create_element payload =
     (if \<not> is_valid (Element.project_id payload)
      then io_raise (HTTPException 400 ''Invalid project_id'')
      else
        io_bind (db_getitem ''project'') (\<lambda>c.
        io_bind (io_lift (ObjectId (Element.project_id payload))) (\<lambda>i.
        io_bind (find_one c i) (\<lambda>parent.
        if falsy parent then io_raise (HTTPException 404 ''Parent project not found'')
        else
          io_bind
            (if truthy (building_id payload) then
               (if \<not> is_valid (str_of (building_id payload))
                then io_raise (HTTPException 400 ''Invalid building_id'')
                else
                  io_bind (db_getitem ''building'') (\<lambda>c.
                  io_bind (io_lift (ObjectId (str_of (building_id payload)))) (\<lambda>i.
                  io_bind (find_one c i) (\<lambda>parent.
                  if falsy parent then io_raise (HTTPException 404 ''Parent building not found'')
                  else io_return ()))))
             else io_return ())
            (\<lambda>_.
          io_try
            (io_bind (create_document ''element'' (dump_Element payload)) (\<lambda>inserted_id.
             io_bind (db_getitem ''element'') (\<lambda>c.
             io_bind (io_lift (ObjectId inserted_id)) (\<lambda>i.
             io_bind (find_one c i) (\<lambda>doc.
             io_return (serialize_doc doc))))))
            except_500)))))"

definition list_elements :: "string \<Rightarrow> string option \<Rightarrow> doc option list io" where
  "list_elements pid bid =
     io_try
       (if \<not> is_valid pid then io_raise (HTTPException 400 ''Invalid project_id'')
        else
          io_bind
            (if truthy bid then
               (if \<not> is_valid (str_of bid) then io_raise (HTTPException 400 ''Invalid building_id'')
                else io_return (dict_set [(''project_id'', VStr pid)] ''building_id'' (VStr (str_of bid))))
             else io_return [(''project_id'', VStr pid)])
            (\<lambda>query.
          io_bind (get_documents ''element'' query) (\<lambda>docs.
          io_return (map (\<lambda>d. serialize_doc (Some d)) docs))))
       except_http_500"

subsection \<open>Request validation for element creation\<close>

text \<open>
  The body of \<open>POST /elements\<close> after parsing, field by field: \<open>None\<close> is a field the
  request left out (or, for an \<open>Optional\<close> field, sent as null). The field types are those
  the schema declares, so a value of another type is outside this model.
\<close>

record ElementBody =
  in_project_id :: "string option"
  in_building_id :: "string option"
  in_element_type :: "string option"
  in_configuration :: "string option"
  in_opening :: "string option"
  in_height_mm :: "real option"
  in_width_mm :: "real option"
  in_depth_mm :: "real option"
  in_thickness_mm :: "real option"
  in_quantity :: "int option"
  in_notes_text :: "string option"
  in_notes_audio_url :: "string option"
  in_photo_url :: "string option"

text \<open>\<open>Field(..., ...)\<close>: a required field.\<close>

fun required :: "string \<Rightarrow> 'a option \<Rightarrow> verr list" where
  "required f None = [Missing f]"
| "required f (Some v) = []"

text \<open>\<open>Literal[...]\<close>: one of a closed set of strings.\<close>

fun literal :: "string \<Rightarrow> string list \<Rightarrow> string option \<Rightarrow> verr list" where
  "literal f allowed None = []"
| "literal f allowed (Some v) = (if v \<in> set allowed then [] else [LiteralError f])"

text \<open>\<open>Field(None, ge=0)\<close> on an optional number.\<close>

fun ge_real :: "string \<Rightarrow> real \<Rightarrow> real option \<Rightarrow> verr list" where
  "ge_real f b None = []"
| "ge_real f b (Some v) = (if v \<ge> b then [] else [GreaterThanEqual f])"

text \<open>\<open>Field(1, ge=1)\<close> on the integer quantity.\<close>

fun ge_int :: "string \<Rightarrow> int \<Rightarrow> int option \<Rightarrow> verr list" where
  "ge_int f b None = []"
| "ge_int f b (Some v) = (if v \<ge> b then [] else [GreaterThanEqual f])"

definition Element_errors :: "ElementBody \<Rightarrow> verr list" where
  "Element_errors r =
     required ''project_id'' (in_project_id r) @
     required ''element_type'' (in_element_type r) @
     literal ''element_type'' [''porte'', ''placard'', ''dressing''] (in_element_type r) @
     literal ''opening'' [''poussant'', ''tirant''] (in_opening r) @
     ge_real ''height_mm'' 0 (in_height_mm r) @
     ge_real ''width_mm'' 0 (in_width_mm r) @
     ge_real ''depth_mm'' 0 (in_depth_mm r) @
     ge_real ''thickness_mm'' 0 (in_thickness_mm r) @
     ge_int ''quantity'' 1 (in_quantity r)"

fun default_int :: "int \<Rightarrow> int option \<Rightarrow> int" where
  "default_int d None = d"
| "default_int d (Some v) = v"

definition validate_Element :: "ElementBody \<Rightarrow> verr list + Element" where
  "validate_Element r =
     (if Element_errors r \<noteq> [] then Inl (Element_errors r)
      else Inr \<lparr>Element.project_id = str_of (in_project_id r),
                building_id = in_building_id r,
                element_type = str_of (in_element_type r),
                configuration = in_configuration r,
                opening = in_opening r,
                height_mm = in_height_mm r,
                width_mm = in_width_mm r,
                depth_mm = in_depth_mm r,
                thickness_mm = in_thickness_mm r,
                quantity = default_int 1 (in_quantity r),
                notes_text = in_notes_text r,
                notes_audio_url = in_notes_audio_url r,
                Element.photo_url = in_photo_url r\<rparr>)"

text \<open>\<open>POST /elements\<close>: the framework validates the body against \<open>ElementCreate\<close> and
  calls the handler only with a validated payload.\<close>

definition post_elements :: "ElementBody \<Rightarrow> doc option io" where
  "post_elements body =
     (case validate_Element body of
        Inl errs \<Rightarrow> io_raise (RequestValidationError errs)
      | Inr payload \<Rightarrow> create_element payload)"

subsection \<open>Summary\<close>

text \<open>\<open>d.get(k, default)\<close>.\<close>

definition dict_get_default :: "doc \<Rightarrow> string \<Rightarrow> pyval \<Rightarrow> pyval" where
  "dict_get_default d k dflt = (case dict_get d k of None \<Rightarrow> dflt | Some v \<Rightarrow> v)"

text \<open>A row of the aggregation result: the group's \<open>_id\<close> document and its \<open>count\<close>.\<close>

type_synonym agg_row = "doc \<times> real"

text \<open>The operand of \<open>$sum\<close>: a number counts, anything else counts as zero. Sums are
  exact: the engine's fixed-width arithmetic is not modelled.\<close>

fun sum_operand :: "pyval \<Rightarrow> real" where
  "sum_operand (VInt n) = of_int n"
| "sum_operand (VFloat x) = x"
| "sum_operand v = 0"

definition group_id :: "doc \<Rightarrow> doc" where
  "group_id d =
     [(''type'', dict_get_default d ''element_type'' VNone),
      (''config'', dict_get_default d ''configuration'' VNone)]"

fun group_add :: "agg_row list \<Rightarrow> doc \<Rightarrow> real \<Rightarrow> agg_row list" where
  "group_add [] k n = [(k, n)]"
| "group_add ((k', c) # gs) k n =
     (if k' = k then (k', c + n) # gs else (k', c) # group_add gs k n)"

fun group_loop :: "agg_row list \<Rightarrow> doc list \<Rightarrow> agg_row list" where
  "group_loop acc [] = acc"
| "group_loop acc (d # ds) =
     group_loop (group_add acc (group_id d) (sum_operand (dict_get_default d ''quantity'' VNone))) ds"

text \<open>
  Modelled from the spec: the store's aggregation engine is outside the repository. The
  pipeline of \<open>project_summary\<close> is the spec's one grouped-aggregation query: keep the
  documents whose \<open>project_id\<close> is the given one, group them by the pair
  (\<open>element_type\<close>, \<open>configuration\<close>), a missing field reading as null, and sum
  \<open>quantity\<close> per group. Groups come out in order of first appearance.
\<close>

definition aggregate :: "string \<Rightarrow> string \<Rightarrow> agg_row list io" where
  "aggregate c pid = (\<lambda>w. case db w of
       None \<Rightarrow> (Inl not_subscriptable, w)
     | Some d \<Rightarrow>
         (Inr (group_loop [] (filter (matches [(''project_id'', VStr pid)]) (d c))),
          w\<lparr>log := log w @ [Aggregate c]\<rparr>))"

record SummaryItem =
  element_type :: pyval
  configuration :: pyval
  count :: real

record Summary =
  total :: real
  items :: "SummaryItem list"

definition project_summary :: "string \<Rightarrow> Summary io" where
  "project_summary pid =
     (if \<not> is_valid pid then io_raise (HTTPException 400 ''Invalid project_id'')
      else
        io_try
          (io_bind (db_getitem ''element'') (\<lambda>c.
           io_bind (aggregate c pid) (\<lambda>agg.
           let items = map (\<lambda>a. \<lparr>SummaryItem.element_type = dict_get_default (fst a) ''type'' VNone,
                                  SummaryItem.configuration = dict_get_default (fst a) ''config'' VNone,
                                  count = snd a\<rparr>) agg;
               total = sum_list (map count items)
           in io_return \<lparr>total = total, items = items\<rparr>)))
          except_500)"

subsection \<open>CSV export\<close>














section \<open>Vocabulary of the properties\<close>

text \<open>The identifier a well-formed string denotes.\<close>

definition oid_of_hex :: "string \<Rightarrow> oid" where
  "oid_of_hex s = Oid (case fromhex s of Some bs \<Rightarrow> bs | None \<Rightarrow> [])"

text \<open>The elements of a project, as the store holds them.\<close>

definition project_elements :: "database \<Rightarrow> string \<Rightarrow> doc list" where
  "project_elements d pid = filter (\<lambda>e. dict_get e ''project_id'' = Some (VStr pid)) (d ''element'')"

text \<open>The pair an element is grouped by, and the quantity it contributes.\<close>

definition element_key :: "doc \<Rightarrow> pyval \<times> pyval" where
  "element_key e =
     (dict_get_default e ''element_type'' VNone, dict_get_default e ''configuration'' VNone)"

definition element_quantity :: "doc \<Rightarrow> real" where
  "element_quantity e = sum_operand (dict_get_default e ''quantity'' VNone)"

definition item_key :: "SummaryItem \<Rightarrow> pyval \<times> pyval" where
  "item_key it = (SummaryItem.element_type it, SummaryItem.configuration it)"

text \<open>The count an aggregation result gives for a group, zero when the group is not there.\<close>

definition count_of :: "agg_row list \<Rightarrow> doc \<Rightarrow> real" where
  "count_of rows k = (case map_of rows k of None \<Rightarrow> 0 | Some c \<Rightarrow> c)"

text \<open>What \<open>serialize_doc\<close> is to do to one value, and to a document: every identifier
  replaced by its string form, keys and all other values kept.\<close>

definition plain :: "pyval \<Rightarrow> pyval" where
  "plain v = (case v of VObjectId i \<Rightarrow> VStr (str_oid i) | _ \<Rightarrow> v)"

definition plain_doc :: "doc \<Rightarrow> doc" where
  "plain_doc d = map (\<lambda>(k, v). (k, plain v)) d"

text \<open>A document is a dict: no key occurs twice.\<close>

definition well_keyed :: "doc \<Rightarrow> bool" where
  "well_keyed d \<longleftrightarrow> distinct (map fst d)"


subsection \<open>Worked examples\<close>

definition empty_db :: database where
  "empty_db c = []"


definition pid_A :: string where "pid_A = ''64b7f0c2a1d3e4f566778899''"
definition bid_A :: string where "bid_A = ''64b7f0c2a1d3e4f5667788aa''"
definition bid_B :: string where "bid_B = ''64b7f0c2a1d3e4f5667788bb''"


text \<open>A stored project, and stored elements with the fields the examples look at.\<close>

definition project_A :: doc where
  "project_A = [(''_id'', VObjectId (oid_of_hex pid_A)), (''name'', VStr ''Chantier''),
                (''project_type'', VStr ''Villa'')]"

definition elem :: "nat \<Rightarrow> string \<Rightarrow> pyval \<Rightarrow> string \<Rightarrow> pyval \<Rightarrow> int \<Rightarrow> doc" where
  "elem n pid bid ty cfg q =
     [(''_id'', VObjectId (fresh_oid n)), (''project_id'', VStr pid), (''building_id'', bid),
      (''element_type'', VStr ty), (''configuration'', cfg), (''quantity'', VInt q)]"

definition element_in :: "string \<Rightarrow> string option \<Rightarrow> Element" where
  "element_in pid bid =
     \<lparr>Element.project_id = pid, building_id = bid, element_type = ''porte'',
      configuration = None, opening = None, height_mm = None, width_mm = None,
      depth_mm = None, thickness_mm = None, quantity = 1, notes_text = None,
      notes_audio_url = None, Element.photo_url = None\<rparr>"

definition body_in :: "real option \<Rightarrow> int option \<Rightarrow> ElementBody" where
  "body_in h q =
     \<lparr>in_project_id = Some pid_A, in_building_id = None, in_element_type = Some ''porte'',
      in_configuration = None, in_opening = None, in_height_mm = h, in_width_mm = None,
      in_depth_mm = None, in_thickness_mm = None, in_quantity = q, in_notes_text = None,
      in_notes_audio_url = None, in_photo_url = None\<rparr>"

section \<open>Basic facts\<close>

lemmas io_defs = io_bind_def io_try_def io_return_def io_raise_def io_lift_def except_500_def

lemma lookup_not_empty: "lookup d c i \<noteq> Some []"
proof
  assume "lookup d c i = Some []"
  then have "dict_get [] ''_id'' = Some (VObjectId i)"
    unfolding lookup_def by (auto simp: find_Some_iff)
  then show False by (simp add: dict_get_def)
qed

lemma falsy_lookup: "falsy (lookup d c i) \<longleftrightarrow> lookup d c i = None"
  by (simp add: falsy_def lookup_not_empty)

lemma falsy_None: "falsy None"
  by (simp add: falsy_def)

lemma matches_single: "matches [(k, v)] e \<longleftrightarrow> dict_get e k = Some v"
  by (simp add: matches_def)

lemma matches_pair:
  "matches [(k, v), (k', v')] e \<longleftrightarrow> dict_get e k = Some v \<and> dict_get e k' = Some v'"
  by (simp add: matches_def)


subsection \<open>Identifiers\<close>

lemma hex_digit_nth: "m < 16 \<Longrightarrow> is_hex (''0123456789abcdef'' ! m)"
  by (auto simp: is_hex_def less_Suc_eq eval_nat_numeral)

lemma hex_digit_not_space: "m < 16 \<Longrightarrow> \<not> is_space (''0123456789abcdef'' ! m)"
  by (auto simp: is_space_def less_Suc_eq eval_nat_numeral)

lemma hex_digit_val: "m < 16 \<Longrightarrow> hex_val (''0123456789abcdef'' ! m) = m"
  by (auto simp: hex_val_def less_Suc_eq eval_nat_numeral)

lemma digit_char_hex: "is_hex (digit_char n)"
  unfolding digit_char_def by (rule hex_digit_nth) simp

lemma digit_char_not_space: "\<not> is_space (digit_char n)"
  unfolding digit_char_def by (rule hex_digit_not_space) simp

lemma hex_val_digit_char: "hex_val (digit_char n) = n mod 16"
  unfolding digit_char_def by (rule hex_digit_val) simp

lemma byte_of_digits: "char_of (16 * ((of_char b :: nat) div 16 mod 16) + (of_char b :: nat) mod 16) = b"
proof -
  have "(of_char b :: nat) < 256"
    by simp
  then have "(of_char b :: nat) div 16 < 16"
    by (intro less_mult_imp_div_less) simp
  then have "(of_char b :: nat) div 16 mod 16 = (of_char b :: nat) div 16"
    by simp
  then show ?thesis
    by simp
qed

lemma length_hexlify: "length (hexlify bs) = 2 * length bs"
  by (induction bs) (simp_all add: hexlify_def)

lemma hexlify_Cons:
  "hexlify (b # bs) =
     digit_char ((of_char b :: nat) div 16) # digit_char ((of_char b :: nat) mod 16) # hexlify bs"
  by (simp add: hexlify_def)

lemma fromhex_hexlify: "fromhex (hexlify bs) = Some bs"
proof (induction bs)
  case Nil
  then show ?case by (simp add: hexlify_def)
next
  case (Cons b bs)
  show ?case
    unfolding hexlify_Cons
    by (simp add: Cons.IH digit_char_hex digit_char_not_space hex_val_digit_char byte_of_digits)
qed

lemma length_be_bytes: "length (be_bytes k n) = k"
  by (induction k arbitrary: n) simp_all

lemma length_bytes12: "length (bytes12 n) = 12"
  by (simp add: bytes12_def length_be_bytes)

lemma be_bytes_numeral:
  "be_bytes (numeral k) n = be_bytes (pred_numeral k) (n div 256) @ [char_of n]"
proof -
  have e: "(numeral k :: nat) = Suc (pred_numeral k)"
    by (rule numeral_eq_Suc)
  show ?thesis
    unfolding e by (rule be_bytes.simps(2))
qed

lemma be_bytes_1: "be_bytes 1 n = [char_of n]"
  unfolding One_nat_def by simp

lemma is_valid_iff: "is_valid s \<longleftrightarrow> length s = 24 \<and> fromhex s \<noteq> None"
  by (auto simp: is_valid_def ObjectId_def split: option.splits)

lemma ObjectId_valid: "is_valid s \<Longrightarrow> ObjectId s = Inr (oid_of_hex s)"
  by (auto simp: is_valid_iff ObjectId_def oid_of_hex_def)

text \<open>The string form of an assigned identifier is well-formed and reads back as the
  identifier.\<close>

lemma ObjectId_str_fresh: "ObjectId (str_oid (fresh_oid n)) = Inr (fresh_oid n)"
  by (simp add: ObjectId_def fresh_oid_def length_hexlify length_bytes12 fromhex_hexlify)



lemma is_valid_pid_A: "is_valid pid_A"
  by (simp add: is_valid_iff pid_A_def is_hex_def is_space_def)

lemma is_valid_bid_A: "is_valid bid_A"
  by (simp add: is_valid_iff bid_A_def is_hex_def is_space_def)



lemma not_valid_xyz: "\<not> is_valid ''xyz''"
  by (simp add: is_valid_iff)

lemma str_oid_fresh_0: "str_oid (fresh_oid 0) = ''000000000000000000000000''"
  by (simp add: fresh_oid_def bytes12_def be_bytes_numeral be_bytes_1 hexlify_def digit_char_def)

lemma str_oid_fresh_1: "str_oid (fresh_oid 1) = ''000000000000000000000001''"
  by (simp add: fresh_oid_def bytes12_def be_bytes_numeral be_bytes_1 hexlify_def digit_char_def)

lemma str_oid_fresh_2: "str_oid (fresh_oid 2) = ''000000000000000000000002''"
  by (simp add: fresh_oid_def bytes12_def be_bytes_numeral be_bytes_1 hexlify_def digit_char_def)

lemma str_oid_fresh_3: "str_oid (fresh_oid 3) = ''000000000000000000000003''"
  by (simp add: fresh_oid_def bytes12_def be_bytes_numeral be_bytes_1 hexlify_def digit_char_def)

lemma str_oid_fresh_255: "str_oid (fresh_oid 255) = ''0000000000000000000000ff''"
  by (simp add: fresh_oid_def bytes12_def be_bytes_numeral be_bytes_1 hexlify_def digit_char_def)

subsection \<open>Running a handler step by step\<close>

lemma raise_apply: "io_raise e w = (Inl e, w)"
  by (simp add: io_raise_def)

lemma return_apply: "io_return x w = (Inr x, w)"
  by (simp add: io_return_def)

lemma bind_getitem: "db w = Some d \<Longrightarrow> io_bind (db_getitem c) f w = f c w"
  by (simp add: io_bind_def db_getitem_def)

lemma bind_lift_Inr: "io_bind (io_lift (Inr x)) f w = f x w"
  by (simp add: io_bind_def io_lift_def)

lemma bind_lift_Inl: "io_bind (io_lift (Inl e)) f w = (Inl e, w)"
  by (simp add: io_bind_def io_lift_def)

lemma bind_find_one: "db w = Some d \<Longrightarrow>
    io_bind (find_one c i) f w = f (lookup d c i) (w\<lparr>log := log w @ [FindOne c i]\<rparr>)"
  by (simp add: io_bind_def find_one_def)

lemma bind_return: "io_bind (io_return x) f w = f x w"
  by (simp add: io_bind_def io_return_def)

lemma bind_raise: "io_bind (io_raise e) f w = (Inl e, w)"
  by (simp add: io_bind_def io_raise_def)

lemma bind_get_documents: "db w = Some d \<Longrightarrow>
    io_bind (get_documents c flt) f w =
      f (filter (matches flt) (d c)) (w\<lparr>log := log w @ [Find c flt]\<rparr>)"
  by (simp add: io_bind_def get_documents_def)

lemma bind_if: "io_bind (if b then m else m') f w = (if b then io_bind m f w else io_bind m' f w)"
  by simp

lemma bind_assoc: "io_bind (io_bind m f) g = io_bind m (\<lambda>x. io_bind (f x) g)"
  by (rule ext) (simp add: io_bind_def split: prod.splits sum.splits)

lemmas bind_simps = raise_apply return_apply falsy_None bind_getitem bind_lift_Inr bind_lift_Inl
  bind_find_one bind_return bind_raise bind_get_documents bind_if bind_assoc


lemma truthy_str_of: "truthy b \<longleftrightarrow> str_of b \<noteq> []"
  by (cases b) simp_all

lemma encodable_opt_str: "encodable (opt_str s)"
  by (cases s) simp_all

lemma encodable_opt_float: "encodable (opt_float x)"
  by (cases x) simp_all

lemma encodable_dump_Project: "list_all (\<lambda>(k, v). encodable v) (dump_Project p)"
  by (simp add: dump_Project_def encodable_opt_str)

lemma encodable_dump_Building: "list_all (\<lambda>(k, v). encodable v) (dump_Building b)"
  by (simp add: dump_Building_def encodable_opt_str)

lemma encodable_dump_Element:
  "list_all (\<lambda>(k, v). encodable v) (dump_Element e) \<longleftrightarrow> int64 (quantity e)"
  by (simp add: dump_Element_def encodable_opt_str encodable_opt_float)

text \<open>The insert followed by the re-read, as every create handler does it, on a store
  that is there: either the document cannot be encoded and the handler answers 500 with
  nothing stored, or it is appended under the next identifier and looked up by it.\<close>

lemma insert_then_reread:
  assumes "db w = Some d"
  shows "io_try
       (io_bind (create_document c data) (\<lambda>inserted_id.
        io_bind (db_getitem c) (\<lambda>c'.
        io_bind (io_lift (ObjectId inserted_id)) (\<lambda>i.
        io_bind (find_one c' i) (\<lambda>doc.
        io_return (serialize_doc doc))))))
       except_500 w =
     (if list_all (\<lambda>(k, v). encodable v) data then
        (Inr (serialize_doc (lookup (d(c := d c @ [(''_id'', VObjectId (fresh_oid (next_oid w))) # data])) c
                (fresh_oid (next_oid w)))),
         w\<lparr>db := Some (d(c := d c @ [(''_id'', VObjectId (fresh_oid (next_oid w))) # data])),
           next_oid := Suc (next_oid w),
           log := log w @ [InsertOne c, FindOne c (fresh_oid (next_oid w))]\<rparr>)
      else (Inl (HTTPException 500 ''MongoDB can only handle up to 8-byte ints''), w))"
  using assms
  by (simp add: io_defs create_document_def db_getitem_def find_one_def ObjectId_str_fresh
      overflow_error_def del: str_oid.simps)

lemma project_A_nonempty: "project_A \<noteq> []"
  by (simp add: project_A_def)

lemma lookup_project_A:
  "lookup (empty_db(''project'' := [project_A])) ''project'' (oid_of_hex pid_A) = Some project_A"
  by (simp add: lookup_def project_A_def dict_get_def)

text \<open>An element creation on a store that is there, branch by branch: what is answered,
  which store accesses have been made, and what is stored.\<close>

lemma create_element_run:
  assumes "db w = Some d"
  shows "create_element payload w =
    (let b = str_of (building_id payload);
         P = oid_of_hex (Element.project_id payload);
         B = oid_of_hex b;
         N = fresh_oid (next_oid w);
         lookups = FindOne ''project'' P # (if b = [] then [] else [FindOne ''building'' B]);
         d' = d(''element'' := d ''element'' @ [(''_id'', VObjectId N) # dump_Element payload])
     in
     if \<not> is_valid (Element.project_id payload) then
       (Inl (HTTPException 400 ''Invalid project_id''), w)
     else if lookup d ''project'' P = None then
       (Inl (HTTPException 404 ''Parent project not found''),
        w\<lparr>log := log w @ [FindOne ''project'' P]\<rparr>)
     else if b \<noteq> [] \<and> \<not> is_valid b then
       (Inl (HTTPException 400 ''Invalid building_id''),
        w\<lparr>log := log w @ [FindOne ''project'' P]\<rparr>)
     else if b \<noteq> [] \<and> lookup d ''building'' B = None then
       (Inl (HTTPException 404 ''Parent building not found''),
        w\<lparr>log := log w @ lookups\<rparr>)
     else if \<not> int64 (quantity payload) then
       (Inl (HTTPException 500 ''MongoDB can only handle up to 8-byte ints''),
        w\<lparr>log := log w @ lookups\<rparr>)
     else
       (Inr (serialize_doc (lookup d' ''element'' N)),
        w\<lparr>db := Some d', next_oid := Suc (next_oid w),
          log := log w @ lookups @ [InsertOne ''element'', FindOne ''element'' N]\<rparr>))"
proof -
  let ?b = "str_of (building_id payload)"
  let ?P = "oid_of_hex (Element.project_id payload)"
  let ?B = "oid_of_hex ?b"
  let ?w1 = "w\<lparr>log := log w @ [FindOne ''project'' ?P]\<rparr>"
  let ?w2 = "w\<lparr>log := log w @ [FindOne ''project'' ?P, FindOne ''building'' ?B]\<rparr>"
  have db1: "db ?w1 = Some d" and db2: "db ?w2 = Some d"
    using assms by simp_all
  note r1 = insert_then_reread [OF db1, of "''element''" "dump_Element payload"]
  note r2 = insert_then_reread [OF db2, of "''element''" "dump_Element payload"]
  show ?thesis
  proof (cases "?b = []")
    case True
    then show ?thesis
      using assms
      by (simp add: create_element_def Let_def bind_simps ObjectId_valid falsy_lookup
          truthy_str_of r1 encodable_dump_Element del: str_oid.simps)
  next
    case False
    then show ?thesis
      using assms
      by (simp add: create_element_def Let_def bind_simps ObjectId_valid falsy_lookup
          truthy_str_of r2 encodable_dump_Element del: str_oid.simps)
  qed
qed

section \<open>Referential integrity and identifier checks\<close>

text \<open>
  C1. Creating a building whose \<open>project_id\<close> is well-formed but identifies no stored
  project raises the 404 "Parent project not found"; the only store access is the point
  lookup of the project, and the collections and the identifier counter are as before, so
  nothing was inserted.
\<close>

theorem create_building_parent_not_found:
  assumes "is_valid (Building.project_id payload)"
    and "db w = Some d"
    and "lookup d ''project'' (oid_of_hex (Building.project_id payload)) = None"
  shows "create_building payload w =
     (Inl (HTTPException 404 ''Parent project not found''),
      w\<lparr>log := log w @ [FindOne ''project'' (oid_of_hex (Building.project_id payload))]\<rparr>)"
  using assms
  by (simp add: create_building_def Let_def bind_simps ObjectId_valid)

theorem create_building_parent_not_found_witness:
  "create_building \<lparr>Building.project_id = pid_A, Building.name = ''Bloc A'', description = None\<rparr>
      \<lparr>db = Some empty_db, next_oid = 0, log = []\<rparr> =
     (Inl (HTTPException 404 ''Parent project not found''),
      \<lparr>db = Some empty_db, next_oid = 0, log = [FindOne ''project'' (oid_of_hex pid_A)]\<rparr>)"
  using create_building_parent_not_found [of
      "\<lparr>Building.project_id = pid_A, Building.name = ''Bloc A'', description = None\<rparr>"
      "\<lparr>db = Some empty_db, next_oid = 0, log = []\<rparr>" empty_db]
  by (simp add: is_valid_pid_A lookup_def empty_db_def)




text \<open>
  C4. Getting a project by the malformed identifier \<open>abc\<close>, on any store that is there:
  \<open>PyObjectId.validate\<close> raises a \<open>ValueError\<close> before the lookup, so the store is not
  accessed, but the handler's \<open>except Exception\<close> clause turns it into a 500 with detail
  "Invalid ObjectId", where the sibling handlers answer a malformed identifier with 400.
\<close>

theorem get_project_malformed_500:
  "get_project ''abc'' \<lparr>db = Some d, next_oid = n, log = l\<rparr> =
     (Inl (HTTPException 500 ''Invalid ObjectId''), \<lparr>db = Some d, next_oid = n, log = l\<rparr>)"
  by (simp add: get_project_def io_defs db_getitem_def PyObjectId_validate_def is_valid_iff)

text \<open>
  C5, as the specification states it, fails: with a stored project and the malformed
  \<open>building_id\<close> \<open>xyz\<close>, the request is rejected with the 400 "Invalid building_id" only
  after the existence lookup of the project has been made.
\<close>

theorem create_element_bad_building_after_lookup:
  "fst (create_element (element_in pid_A (Some ''xyz''))
          \<lparr>db = Some (empty_db(''project'' := [project_A])), next_oid = 0, log = []\<rparr>) =
     Inl (HTTPException 400 ''Invalid building_id'') \<and>
   log (snd (create_element (element_in pid_A (Some ''xyz''))
          \<lparr>db = Some (empty_db(''project'' := [project_A])), next_oid = 0, log = []\<rparr>)) =
     [FindOne ''project'' (oid_of_hex pid_A)]"
  by (simp add: create_element_def element_in_def is_valid_pid_A bind_simps ObjectId_valid
      falsy_def lookup_project_A not_valid_xyz project_A_nonempty)

text \<open>
  C5, amended. For an element-creation request that supplies a \<open>building_id\<close>, on a
  store that is there, the checks run in this order, each identifier's well-formedness
  immediately before its own existence lookup: well-formedness of \<open>project_id\<close> (400, no
  store access), existence of the project (404, after one lookup), and, unless the
  supplied \<open>building_id\<close> is the empty string, well-formedness of \<open>building_id\<close> (400,
  after the project lookup and before any building lookup) and existence of the building
  (404, after two lookups); only then the insert, which answers 500 with nothing stored
  when the quantity does not fit eight bytes, and the re-read. An empty \<open>building_id\<close>
  passes with no building check at all.
\<close>

theorem create_element_check_order:
  assumes "db w = Some d" and "building_id payload = Some b"
  shows "create_element payload w =
    (let P = oid_of_hex (Element.project_id payload);
         B = oid_of_hex b;
         N = fresh_oid (next_oid w);
         lookups = FindOne ''project'' P # (if b = [] then [] else [FindOne ''building'' B]);
         d' = d(''element'' := d ''element'' @ [(''_id'', VObjectId N) # dump_Element payload])
     in
     if \<not> is_valid (Element.project_id payload) then
       (Inl (HTTPException 400 ''Invalid project_id''), w)
     else if lookup d ''project'' P = None then
       (Inl (HTTPException 404 ''Parent project not found''),
        w\<lparr>log := log w @ [FindOne ''project'' P]\<rparr>)
     else if b \<noteq> [] \<and> \<not> is_valid b then
       (Inl (HTTPException 400 ''Invalid building_id''),
        w\<lparr>log := log w @ [FindOne ''project'' P]\<rparr>)
     else if b \<noteq> [] \<and> lookup d ''building'' B = None then
       (Inl (HTTPException 404 ''Parent building not found''),
        w\<lparr>log := log w @ lookups\<rparr>)
     else if \<not> int64 (quantity payload) then
       (Inl (HTTPException 500 ''MongoDB can only handle up to 8-byte ints''),
        w\<lparr>log := log w @ lookups\<rparr>)
     else
       (Inr (serialize_doc (lookup d' ''element'' N)),
        w\<lparr>db := Some d', next_oid := Suc (next_oid w),
          log := log w @ lookups @ [InsertOne ''element'', FindOne ''element'' N]\<rparr>))"
  unfolding create_element_run [OF assms(1)] using assms(2) by (simp add: Let_def)

theorem create_element_check_order_witness:
  "create_element (element_in pid_A (Some ''xyz''))
      \<lparr>db = Some (empty_db(''project'' := [project_A])), next_oid = 0, log = []\<rparr> =
     (Inl (HTTPException 400 ''Invalid building_id''),
      \<lparr>db = Some (empty_db(''project'' := [project_A])), next_oid = 0,
        log = [FindOne ''project'' (oid_of_hex pid_A)]\<rparr>) \<and>
   create_element (element_in pid_A (Some bid_A))
      \<lparr>db = Some (empty_db(''project'' := [project_A])), next_oid = 0, log = []\<rparr> =
     (Inl (HTTPException 404 ''Parent building not found''),
      \<lparr>db = Some (empty_db(''project'' := [project_A])), next_oid = 0,
        log = [FindOne ''project'' (oid_of_hex pid_A), FindOne ''building'' (oid_of_hex bid_A)]\<rparr>)"
proof -
  let ?w = "\<lparr>db = Some (empty_db(''project'' := [project_A])), next_oid = 0, log = []\<rparr>"
  have a: "db ?w = Some (empty_db(''project'' := [project_A]))"
    by simp
  have b: "building_id (element_in pid_A (Some ''xyz'')) = Some ''xyz''"
    by (simp add: element_in_def)
  have b': "building_id (element_in pid_A (Some bid_A)) = Some bid_A"
    by (simp add: element_in_def)
  have p: "Element.project_id (element_in pid_A bid) = pid_A" for bid
    by (simp add: element_in_def)
  have ne: "bid_A \<noteq> []"
    by (simp add: bid_A_def)
  have nf: "lookup (empty_db(''project'' := [project_A])) ''building'' (oid_of_hex bid_A) = None"
    by (simp add: lookup_def empty_db_def)
  show ?thesis
    using create_element_check_order [OF a b] create_element_check_order [OF a b']
    by (simp add: Let_def p lookup_project_A is_valid_pid_A is_valid_bid_A not_valid_xyz ne nf
        del: str_oid.simps)
qed

section \<open>Serialisation\<close>

lemma dict_set_fresh: "k \<notin> fst ` set out \<Longrightarrow> dict_set out k v = out @ [(k, v)]"
  by (induction out) auto

lemma serialize_value_plain: "serialize_value v = plain v"
  by (cases v) (simp_all add: plain_def)

lemma serialize_loop_distinct:
  "distinct (map fst d) \<Longrightarrow> fst ` set out \<inter> fst ` set d = {} \<Longrightarrow>
   serialize_loop out d = out @ plain_doc d"
proof (induction d arbitrary: out)
  case Nil
  then show ?case by (simp add: plain_doc_def)
next
  case (Cons kv d)
  obtain k v where kv: "kv = (k, v)" by (cases kv)
  have fresh: "k \<notin> fst ` set out"
    using Cons.prems(2) kv by auto
  have disj: "fst ` set (out @ [(k, plain v)]) \<inter> fst ` set d = {}"
    using Cons.prems kv by auto
  have "serialize_loop out (kv # d) = serialize_loop (out @ [(k, plain v)]) d"
    by (simp add: kv dict_set_fresh [OF fresh] serialize_value_plain)
  also have "\<dots> = (out @ [(k, plain v)]) @ plain_doc d"
    using Cons.prems(1) disj by (intro Cons.IH) simp_all
  finally show ?case
    by (simp add: kv plain_doc_def)
qed

text \<open>On a dict, the loop of \<open>serialize_doc\<close> rebuilds the document pair by pair.\<close>

lemma serialize_doc_plain: "well_keyed d \<Longrightarrow> serialize_doc (Some d) = Some (plain_doc d)"
  using serialize_loop_distinct [of d "[]"] by (simp add: well_keyed_def plain_doc_def)

lemma serialize_docs_plain:
  "\<forall>e \<in> set es. well_keyed e \<Longrightarrow>
   map (\<lambda>e. serialize_doc (Some e)) es = map (\<lambda>e. Some (plain_doc e)) es"
  by (simp add: serialize_doc_plain del: serialize_doc.simps)

lemma well_keyed_elem: "well_keyed (elem n pid bid ty cfg q)"
  by (simp add: well_keyed_def elem_def)

lemma plain_doc_elem:
  "plain_doc (elem n pid (VStr bid) ty (VStr cfg) q) =
     [(''_id'', VStr (str_oid (fresh_oid n))), (''project_id'', VStr pid),
      (''building_id'', VStr bid), (''element_type'', VStr ty), (''configuration'', VStr cfg),
      (''quantity'', VInt q)]"
  by (simp add: plain_doc_def elem_def plain_def)

section \<open>Listing\<close>

lemma matches_project:
  "matches [(''project_id'', VStr pid)] = (\<lambda>e. dict_get e ''project_id'' = Some (VStr pid))"
  by (rule ext) (simp add: matches_single)

lemma filter_matches_project:
  "filter (matches [(''project_id'', VStr pid)]) (d ''element'') = project_elements d pid"
  by (simp add: project_elements_def matches_project)

text \<open>
  C6. Listing the elements of a project with a well-formed (hence non-empty)
  \<open>building_id\<close> filter, on a store that is there and holds dicts, returns the stored
  elements whose \<open>project_id\<close> is the requested project and whose \<open>building_id\<close> is the
  filter, all of them and no other, in store order, each with its identifiers replaced by
  their string form and every other field as stored.
\<close>

theorem list_elements_building_filter:
  assumes "is_valid pid" and "is_valid bid" and "db w = Some d"
    and "\<forall>e \<in> set (d ''element''). well_keyed e"
  shows "list_elements pid (Some bid) w =
     (Inr (map (\<lambda>e. Some (plain_doc e))
            (filter (\<lambda>e. dict_get e ''project_id'' = Some (VStr pid) \<and>
                          dict_get e ''building_id'' = Some (VStr bid)) (d ''element''))),
      w\<lparr>log := log w @
             [Find ''element'' [(''project_id'', VStr pid), (''building_id'', VStr bid)]]\<rparr>)"
proof -
  have ne: "bid \<noteq> []"
    using assms(2) by (auto simp: is_valid_iff)
  have m: "matches [(''project_id'', VStr pid), (''building_id'', VStr bid)] =
        (\<lambda>e. dict_get e ''project_id'' = Some (VStr pid) \<and>
              dict_get e ''building_id'' = Some (VStr bid))"
    by (rule ext) (simp add: matches_pair)
  have s: "map (\<lambda>e. serialize_doc (Some e)) (filter P (d ''element'')) =
        map (\<lambda>e. Some (plain_doc e)) (filter P (d ''element''))" for P
    using assms(4) by (intro serialize_docs_plain) simp
  show ?thesis
    using assms(1-3) ne
    by (simp add: list_elements_def io_try_def bind_simps m s del: serialize_doc.simps)
qed

theorem list_elements_building_filter_witness:
  "list_elements pid_A (Some bid_A)
      \<lparr>db = Some (empty_db(''element'' :=
              [elem 1 pid_A (VStr bid_A) ''porte'' (VStr ''simple'') 2,
               elem 2 pid_A (VStr bid_B) ''porte'' (VStr ''simple'') 3,
               elem 3 pid_A (VStr bid_A) ''placard'' (VStr ''L'') 1])), next_oid = 4, log = []\<rparr> =
     (Inr [Some [(''_id'', VStr ''000000000000000000000001''), (''project_id'', VStr pid_A),
                 (''building_id'', VStr bid_A), (''element_type'', VStr ''porte''),
                 (''configuration'', VStr ''simple''), (''quantity'', VInt 2)],
           Some [(''_id'', VStr ''000000000000000000000003''), (''project_id'', VStr pid_A),
                 (''building_id'', VStr bid_A), (''element_type'', VStr ''placard''),
                 (''configuration'', VStr ''L''), (''quantity'', VInt 1)]],
      \<lparr>db = Some (empty_db(''element'' :=
              [elem 1 pid_A (VStr bid_A) ''porte'' (VStr ''simple'') 2,
               elem 2 pid_A (VStr bid_B) ''porte'' (VStr ''simple'') 3,
               elem 3 pid_A (VStr bid_A) ''placard'' (VStr ''L'') 1])), next_oid = 4,
        log = [Find ''element'' [(''project_id'', VStr pid_A), (''building_id'', VStr bid_A)]]\<rparr>)"
proof -
  let ?d = "empty_db(''element'' :=
              [elem 1 pid_A (VStr bid_A) ''porte'' (VStr ''simple'') 2,
               elem 2 pid_A (VStr bid_B) ''porte'' (VStr ''simple'') 3,
               elem 3 pid_A (VStr bid_A) ''placard'' (VStr ''L'') 1])"
  let ?w = "\<lparr>db = Some ?d, next_oid = 4, log = []\<rparr>"
  have a: "db ?w = Some ?d"
    by simp
  have k: "\<forall>e \<in> set (?d ''element''). well_keyed e"
    by (simp add: well_keyed_elem)
  have f: "filter (\<lambda>e. dict_get e ''project_id'' = Some (VStr pid_A) \<and>
                        dict_get e ''building_id'' = Some (VStr bid_A)) (?d ''element'') =
      [elem 1 pid_A (VStr bid_A) ''porte'' (VStr ''simple'') 2,
       elem 3 pid_A (VStr bid_A) ''placard'' (VStr ''L'') 1]"
    by (simp add: elem_def dict_get_def bid_A_def bid_B_def)
  show ?thesis
    unfolding list_elements_building_filter [OF is_valid_pid_A is_valid_bid_A a k] f
    by (simp add: plain_doc_elem str_oid_fresh_1 [unfolded One_nat_def] str_oid_fresh_3
        del: str_oid.simps)
qed

text \<open>
  C9. An empty-string \<open>building_id\<close> is treated as absent. Listing elements with it is
  listing them with no \<open>building_id\<close>, in every world: although the empty string is not a
  well-formed identifier, it is not checked, and on a store that is there and holds dicts
  the answer is every element of the project, after one query on the \<open>project_id\<close>
  alone. Creating an element with it makes no building lookup: the checks are those of
  the project only, and when they pass the element is written.
\<close>

theorem empty_building_id_is_absent:
  "\<not> is_valid [] \<and>
   list_elements pid (Some []) w = list_elements pid None w \<and>
   (is_valid pid \<and> db w = Some d \<and> (\<forall>e \<in> set (d ''element''). well_keyed e) \<longrightarrow>
      list_elements pid (Some []) w =
        (Inr (map (\<lambda>e. Some (plain_doc e)) (project_elements d pid)),
         w\<lparr>log := log w @ [Find ''element'' [(''project_id'', VStr pid)]]\<rparr>)) \<and>
   (building_id payload = Some [] \<and> db w = Some d \<longrightarrow>
      create_element payload w =
        (let P = oid_of_hex (Element.project_id payload);
             N = fresh_oid (next_oid w);
             d' = d(''element'' := d ''element'' @ [(''_id'', VObjectId N) # dump_Element payload])
         in
         if \<not> is_valid (Element.project_id payload) then
           (Inl (HTTPException 400 ''Invalid project_id''), w)
         else if lookup d ''project'' P = None then
           (Inl (HTTPException 404 ''Parent project not found''),
            w\<lparr>log := log w @ [FindOne ''project'' P]\<rparr>)
         else if \<not> int64 (quantity payload) then
           (Inl (HTTPException 500 ''MongoDB can only handle up to 8-byte ints''),
            w\<lparr>log := log w @ [FindOne ''project'' P]\<rparr>)
         else
           (Inr (serialize_doc (lookup d' ''element'' N)),
            w\<lparr>db := Some d', next_oid := Suc (next_oid w),
              log := log w @ [FindOne ''project'' P, InsertOne ''element'', FindOne ''element'' N]\<rparr>)))"
proof (intro conjI impI)
  show "\<not> is_valid []"
    by (simp add: is_valid_iff)
next
  show "list_elements pid (Some []) w = list_elements pid None w"
    by (simp add: list_elements_def)
next
  assume a: "is_valid pid \<and> db w = Some d \<and> (\<forall>e \<in> set (d ''element''). well_keyed e)"
  then have s: "map (\<lambda>e. serialize_doc (Some e)) (project_elements d pid) =
        map (\<lambda>e. Some (plain_doc e)) (project_elements d pid)"
    by (intro serialize_docs_plain) (simp add: project_elements_def)
  show "list_elements pid (Some []) w =
        (Inr (map (\<lambda>e. Some (plain_doc e)) (project_elements d pid)),
         w\<lparr>log := log w @ [Find ''element'' [(''project_id'', VStr pid)]]\<rparr>)"
    using a
    by (simp add: list_elements_def io_try_def bind_simps filter_matches_project s
        del: serialize_doc.simps)
next
  assume a: "building_id payload = Some [] \<and> db w = Some d"
  then have d: "db w = Some d"
    by simp
  show "create_element payload w =
        (let P = oid_of_hex (Element.project_id payload);
             N = fresh_oid (next_oid w);
             d' = d(''element'' := d ''element'' @ [(''_id'', VObjectId N) # dump_Element payload])
         in
         if \<not> is_valid (Element.project_id payload) then
           (Inl (HTTPException 400 ''Invalid project_id''), w)
         else if lookup d ''project'' P = None then
           (Inl (HTTPException 404 ''Parent project not found''),
            w\<lparr>log := log w @ [FindOne ''project'' P]\<rparr>)
         else if \<not> int64 (quantity payload) then
           (Inl (HTTPException 500 ''MongoDB can only handle up to 8-byte ints''),
            w\<lparr>log := log w @ [FindOne ''project'' P]\<rparr>)
         else
           (Inr (serialize_doc (lookup d' ''element'' N)),
            w\<lparr>db := Some d', next_oid := Suc (next_oid w),
              log := log w @ [FindOne ''project'' P, InsertOne ''element'', FindOne ''element'' N]\<rparr>))"
    unfolding create_element_run [OF d] using a by (simp add: Let_def)
qed

theorem empty_building_id_is_absent_witness:
  "list_elements pid_A (Some [])
      \<lparr>db = Some (empty_db(''element'' :=
              [elem 2 pid_A (VStr bid_A) ''porte'' (VStr ''simple'') 2,
               elem 3 pid_A (VStr bid_B) ''placard'' (VStr ''L'') 1])), next_oid = 4, log = []\<rparr> =
     (Inr [Some [(''_id'', VStr ''000000000000000000000002''), (''project_id'', VStr pid_A),
                 (''building_id'', VStr bid_A), (''element_type'', VStr ''porte''),
                 (''configuration'', VStr ''simple''), (''quantity'', VInt 2)],
           Some [(''_id'', VStr ''000000000000000000000003''), (''project_id'', VStr pid_A),
                 (''building_id'', VStr bid_B), (''element_type'', VStr ''placard''),
                 (''configuration'', VStr ''L''), (''quantity'', VInt 1)]],
      \<lparr>db = Some (empty_db(''element'' :=
              [elem 2 pid_A (VStr bid_A) ''porte'' (VStr ''simple'') 2,
               elem 3 pid_A (VStr bid_B) ''placard'' (VStr ''L'') 1])), next_oid = 4,
        log = [Find ''element'' [(''project_id'', VStr pid_A)]]\<rparr>) \<and>
   create_element (element_in pid_A (Some []))
      \<lparr>db = Some (empty_db(''project'' := [project_A])), next_oid = 0, log = []\<rparr> =
     (Inr (Some [(''_id'', VStr ''000000000000000000000000''), (''project_id'', VStr pid_A),
                 (''building_id'', VStr []), (''element_type'', VStr ''porte''),
                 (''configuration'', VNone), (''opening'', VNone), (''height_mm'', VNone),
                 (''width_mm'', VNone), (''depth_mm'', VNone), (''thickness_mm'', VNone),
                 (''quantity'', VInt 1), (''notes_text'', VNone), (''notes_audio_url'', VNone),
                 (''photo_url'', VNone)]),
      \<lparr>db = Some (empty_db(''project'' := [project_A],
                ''element'' := [(''_id'', VObjectId (fresh_oid 0)) #
                                dump_Element (element_in pid_A (Some []))])),
        next_oid = 1,
        log = [FindOne ''project'' (oid_of_hex pid_A), InsertOne ''element'',
               FindOne ''element'' (fresh_oid 0)]\<rparr>)"
proof -
  let ?d1 = "empty_db(''element'' :=
              [elem 2 pid_A (VStr bid_A) ''porte'' (VStr ''simple'') 2,
               elem 3 pid_A (VStr bid_B) ''placard'' (VStr ''L'') 1])"
  let ?w1 = "\<lparr>db = Some ?d1, next_oid = 4, log = []\<rparr>"
  let ?d2 = "empty_db(''project'' := [project_A])"
  let ?w2 = "\<lparr>db = Some ?d2, next_oid = 0, log = []\<rparr>"
  have pe: "project_elements ?d1 pid_A =
      [elem 2 pid_A (VStr bid_A) ''porte'' (VStr ''simple'') 2,
       elem 3 pid_A (VStr bid_B) ''placard'' (VStr ''L'') 1]"
    by (simp add: project_elements_def elem_def dict_get_def)
  have h1: "is_valid pid_A \<and> db ?w1 = Some ?d1 \<and> (\<forall>e \<in> set (?d1 ''element''). well_keyed e)"
    by (simp add: is_valid_pid_A well_keyed_elem)
  have h2: "building_id (element_in pid_A (Some [])) = Some [] \<and> db ?w2 = Some ?d2"
    by (simp add: element_in_def)
  have p: "Element.project_id (element_in pid_A (Some [])) = pid_A"
    by (simp add: element_in_def)
  have q: "int64 (quantity (element_in pid_A (Some [])))"
    by (simp add: element_in_def int64_def)
  have s: "serialize_doc (lookup
        (?d2(''element'' :=
              [(''_id'', VObjectId (fresh_oid 0)) # dump_Element (element_in pid_A (Some []))]))
        ''element'' (fresh_oid 0)) =
      Some [(''_id'', VStr ''000000000000000000000000''), (''project_id'', VStr pid_A),
            (''building_id'', VStr []), (''element_type'', VStr ''porte''),
            (''configuration'', VNone), (''opening'', VNone), (''height_mm'', VNone),
            (''width_mm'', VNone), (''depth_mm'', VNone), (''thickness_mm'', VNone),
            (''quantity'', VInt 1), (''notes_text'', VNone), (''notes_audio_url'', VNone),
            (''photo_url'', VNone)]"
    by (simp add: lookup_def dict_get_def dump_Element_def element_in_def
        str_oid_fresh_0 del: str_oid.simps)
  note l = mp [OF conjunct1 [OF conjunct2 [OF conjunct2 [OF empty_building_id_is_absent]]] h1]
  note c = mp [OF conjunct2 [OF conjunct2 [OF conjunct2 [OF empty_building_id_is_absent]]] h2]
  show ?thesis
    unfolding l c
    by (simp add: pe p q s Let_def lookup_project_A is_valid_pid_A plain_doc_elem empty_db_def
        str_oid_fresh_2 str_oid_fresh_3 del: str_oid.simps serialize_doc.simps)
qed

section \<open>Validation\<close>

text \<open>
  C8. For every element-creation body: when \<open>quantity\<close> is left out, the validated
  record has quantity 1; when one of \<open>height_mm\<close>, \<open>width_mm\<close>, \<open>depth_mm\<close>,
  \<open>thickness_mm\<close> is negative, or \<open>quantity\<close> is below 1, the request fails with a
  validation error that names at least one field, and the world is as before: the handler
  is not entered and the store is not called.
\<close>

theorem element_validation:
  "(in_quantity body = None \<longrightarrow> (\<forall>e. validate_Element body = Inr e \<longrightarrow> quantity e = 1)) \<and>
   ((\<exists>x. in_height_mm body = Some x \<and> x < 0) \<or> (\<exists>x. in_width_mm body = Some x \<and> x < 0) \<or>
    (\<exists>x. in_depth_mm body = Some x \<and> x < 0) \<or> (\<exists>x. in_thickness_mm body = Some x \<and> x < 0) \<or>
    (\<exists>q. in_quantity body = Some q \<and> q < 1)
    \<longrightarrow> (\<exists>errs. errs \<noteq> [] \<and> post_elements body w = (Inl (RequestValidationError errs), w)))"
proof (intro conjI impI)
  assume "in_quantity body = None"
  then show "\<forall>e. validate_Element body = Inr e \<longrightarrow> quantity e = 1"
    by (auto simp: validate_Element_def split: if_splits)
next
  assume "(\<exists>x. in_height_mm body = Some x \<and> x < 0) \<or> (\<exists>x. in_width_mm body = Some x \<and> x < 0) \<or>
    (\<exists>x. in_depth_mm body = Some x \<and> x < 0) \<or> (\<exists>x. in_thickness_mm body = Some x \<and> x < 0) \<or>
    (\<exists>q. in_quantity body = Some q \<and> q < 1)"
  then have "Element_errors body \<noteq> []"
    by (auto simp: Element_errors_def)
  then show "\<exists>errs. errs \<noteq> [] \<and> post_elements body w = (Inl (RequestValidationError errs), w)"
    by (simp add: post_elements_def validate_Element_def io_raise_def)
qed

theorem element_validation_witness:
  "validate_Element (body_in (Some 2040) None) =
     Inr (element_in pid_A None\<lparr>height_mm := Some 2040\<rparr>) \<and>
   quantity (element_in pid_A None\<lparr>height_mm := Some 2040\<rparr>) = 1 \<and>
   post_elements (body_in (Some (- 1)) None) \<lparr>db = Some empty_db, next_oid = 0, log = []\<rparr> =
     (Inl (RequestValidationError [GreaterThanEqual ''height_mm'']),
      \<lparr>db = Some empty_db, next_oid = 0, log = []\<rparr>) \<and>
   post_elements (body_in None (Some 0)) \<lparr>db = Some empty_db, next_oid = 0, log = []\<rparr> =
     (Inl (RequestValidationError [GreaterThanEqual ''quantity'']),
      \<lparr>db = Some empty_db, next_oid = 0, log = []\<rparr>)"
  using element_validation [of "body_in (Some 2040) None"
      "\<lparr>db = Some empty_db, next_oid = 0, log = []\<rparr>"]
    element_validation [of "body_in (Some (- 1)) None"
      "\<lparr>db = Some empty_db, next_oid = 0, log = []\<rparr>"]
  by (simp add: body_in_def element_in_def validate_Element_def Element_errors_def
      post_elements_def io_raise_def)


section \<open>Summary\<close>

lemma group_add_keys:
  "set (map fst (group_add acc k n)) = insert k (set (map fst acc))"
  by (induction acc k n rule: group_add.induct) auto

lemma group_add_distinct:
  "distinct (map fst acc) \<Longrightarrow> distinct (map fst (group_add acc k n))"
proof (induction acc k n rule: group_add.induct)
  case (1 k n)
  then show ?case by simp
next
  case (2 k' c gs k n)
  then show ?case
    using group_add_keys [of gs k n] by auto
qed

lemma count_of_group_add:
  "count_of (group_add acc k n) k' = count_of acc k' + (if k' = k then n else 0)"
  by (induction acc k n rule: group_add.induct) (auto simp: count_of_def)

lemma sum_group_add: "sum_list (map snd (group_add acc k n)) = sum_list (map snd acc) + n"
  by (induction acc k n rule: group_add.induct) auto

lemma group_loop_keys:
  "set (map fst (group_loop acc ds)) = set (map fst acc) \<union> group_id ` set ds"
proof (induction ds arbitrary: acc)
  case Nil
  then show ?case by simp
next
  case (Cons e ds)
  show ?case
    by (simp add: Cons.IH group_add_keys del: set_map)
qed

lemma group_loop_distinct:
  "distinct (map fst acc) \<Longrightarrow> distinct (map fst (group_loop acc ds))"
  by (induction ds arbitrary: acc) (simp_all add: group_add_distinct)

lemma count_of_group_loop:
  "count_of (group_loop acc ds) k =
     count_of acc k + sum_list (map element_quantity (filter (\<lambda>e. group_id e = k) ds))"
proof (induction ds arbitrary: acc)
  case Nil
  then show ?case by simp
next
  case (Cons e ds)
  show ?case
    by (auto simp: Cons.IH count_of_group_add element_quantity_def)
qed

lemma sum_group_loop:
  "sum_list (map snd (group_loop acc ds)) = sum_list (map snd acc) + sum_list (map element_quantity ds)"
  by (induction ds arbitrary: acc) (simp_all add: sum_group_add element_quantity_def)

lemma count_of_member:
  "distinct (map fst rows) \<Longrightarrow> (k, c) \<in> set rows \<Longrightarrow> count_of rows k = c"
  by (simp add: count_of_def)

lemma group_id_eq: "group_id e = group_id e' \<longleftrightarrow> element_key e = element_key e'"
  by (simp add: group_id_def element_key_def)

lemma bind_aggregate: "db w = Some d \<Longrightarrow>
    io_bind (aggregate c pid) f w =
      f (group_loop [] (filter (matches [(''project_id'', VStr pid)]) (d c)))
        (w\<lparr>log := log w @ [Aggregate c]\<rparr>)"
  by (simp add: io_bind_def aggregate_def)

lemma item_key_row:
  "item_key \<lparr>SummaryItem.element_type = dict_get_default (group_id e) ''type'' VNone,
             SummaryItem.configuration = dict_get_default (group_id e) ''config'' VNone,
             count = c\<rparr> = element_key e"
  by (simp add: item_key_def group_id_def dict_get_default_def dict_get_def element_key_def)

text \<open>
  C2. For a well-formed project identifier, on a store that is there, the summary makes
  one aggregation query and answers with one item for every pair (\<open>element_type\<close>,
  \<open>configuration\<close>) that occurs among the project's elements, no pair twice and no
  other pair; the count of an item is the sum of the quantities of the project's elements
  with that pair, and the total is the sum of the counts, which is the sum of the
  quantities of all the project's elements. For the elements (porte, simple, 2),
  (porte, simple, 3), (placard, null, 1) the total is 6 and the items are
  (porte, simple, 5) and (placard, null, 1).
\<close>

theorem project_summary_groups:
  assumes "is_valid pid" and "db w = Some d"
  shows "\<exists>s. project_summary pid w = (Inr s, w\<lparr>log := log w @ [Aggregate ''element'']\<rparr>) \<and>
     distinct (map item_key (items s)) \<and>
     set (map item_key (items s)) = element_key ` set (project_elements d pid) \<and>
     (\<forall>it \<in> set (items s).
        count it = sum_list (map element_quantity
                     (filter (\<lambda>e. element_key e = item_key it) (project_elements d pid)))) \<and>
     total s = sum_list (map count (items s)) \<and>
     total s = sum_list (map element_quantity (project_elements d pid))"
proof -
  let ?es = "project_elements d pid"
  let ?agg = "group_loop [] ?es"
  let ?mk = "\<lambda>a. \<lparr>SummaryItem.element_type = dict_get_default (fst a) ''type'' VNone,
                    SummaryItem.configuration = dict_get_default (fst a) ''config'' VNone,
                    count = snd a\<rparr>"
  let ?items = "map ?mk ?agg"
  let ?s = "\<lparr>total = sum_list (map count ?items), items = ?items\<rparr>"
  have run: "project_summary pid w = (Inr ?s, w\<lparr>log := log w @ [Aggregate ''element'']\<rparr>)"
    using assms
    by (simp add: project_summary_def io_try_def bind_simps bind_aggregate Let_def
        filter_matches_project)
  have dist: "distinct (map fst ?agg)"
    by (rule group_loop_distinct) simp
  have from_elem: "\<exists>e \<in> set ?es. fst a = group_id e" if "a \<in> set ?agg" for a
  proof -
    from that have "fst a \<in> set (map fst ?agg)" by simp
    then show ?thesis
      unfolding group_loop_keys by auto
  qed
  have key_of: "item_key (?mk a) = element_key e" if "fst a = group_id e" for a e
    using item_key_row [of e "snd a"] that by simp
  have inj: "inj_on (\<lambda>a. item_key (?mk a)) (set ?agg)"
  proof (rule inj_onI)
    fix a a'
    assume a: "a \<in> set ?agg" and a': "a' \<in> set ?agg"
      and eq: "item_key (?mk a) = item_key (?mk a')"
    obtain e where e: "fst a = group_id e" using from_elem [OF a] by blast
    obtain e' where e': "fst a' = group_id e'" using from_elem [OF a'] by blast
    have "element_key e = element_key e'"
      using eq key_of [OF e] key_of [OF e'] by simp
    then have "fst a = fst a'"
      using e e' by (simp add: group_id_eq)
    then show "a = a'"
      using dist a a' by (meson distinct_map inj_onD)
  qed
  have d1: "distinct (map item_key ?items)"
  proof -
    have "distinct ?agg" using dist by (simp add: distinct_map)
    then have "distinct (map (\<lambda>a. item_key (?mk a)) ?agg)"
      using inj by (simp add: distinct_map)
    then show ?thesis by (simp add: comp_def)
  qed
  have d2: "set (map item_key ?items) = element_key ` set ?es"
  proof (intro set_eqI iffI)
    fix k assume "k \<in> set (map item_key ?items)"
    then obtain a where a: "a \<in> set ?agg" and k: "k = item_key (?mk a)" by auto
    obtain e where e: "e \<in> set ?es" "fst a = group_id e" using from_elem [OF a] by blast
    show "k \<in> element_key ` set ?es"
      using k key_of [OF e(2)] e(1) by simp
  next
    fix k assume "k \<in> element_key ` set ?es"
    then obtain e where e: "e \<in> set ?es" and k: "k = element_key e" by auto
    have "group_id e \<in> set (map fst ?agg)"
      unfolding group_loop_keys using e by simp
    then obtain a where a: "a \<in> set ?agg" "fst a = group_id e" by auto
    have "item_key (?mk a) = k"
      using key_of [OF a(2)] k by simp
    then show "k \<in> set (map item_key ?items)"
      using a(1) by force
  qed
  have d3: "\<forall>it \<in> set ?items.
        count it = sum_list (map element_quantity
                     (filter (\<lambda>e. element_key e = item_key it) ?es))"
  proof
    fix it assume "it \<in> set ?items"
    then obtain a where a: "a \<in> set ?agg" and it: "it = ?mk a" by auto
    obtain e where e: "fst a = group_id e" using from_elem [OF a] by blast
    have "(fst a, snd a) \<in> set ?agg" using a by simp
    then have "count_of ?agg (fst a) = snd a"
      using dist by (rule count_of_member [rotated])
    moreover have "count_of ?agg (fst a) =
        sum_list (map element_quantity (filter (\<lambda>x. group_id x = group_id e) ?es))"
      unfolding count_of_group_loop e by (simp add: count_of_def)
    ultimately have "snd a =
        sum_list (map element_quantity (filter (\<lambda>x. group_id x = group_id e) ?es))"
      by simp
    moreover have "item_key it = element_key e"
      using key_of [OF e] it by simp
    ultimately show "count it = sum_list (map element_quantity
                     (filter (\<lambda>e. element_key e = item_key it) ?es))"
      using it by (simp add: group_id_eq)
  qed
  show ?thesis
    apply (rule exI [of _ ?s])
    apply (intro conjI)
    subgoal by (rule run)
    subgoal using d1 by simp
    subgoal using d2 by simp
    subgoal using d3 by simp
    subgoal by simp
    subgoal by (simp add: comp_def sum_group_loop)
    done
qed

theorem project_summary_groups_witness:
  "project_summary pid_A
      \<lparr>db = Some (empty_db(''element'' :=
              [elem 1 pid_A VNone ''porte'' (VStr ''simple'') 2,
               elem 2 pid_A VNone ''porte'' (VStr ''simple'') 3,
               elem 3 pid_A VNone ''placard'' VNone 1])), next_oid = 4, log = []\<rparr> =
     (Inr \<lparr>total = 6,
            items = [\<lparr>SummaryItem.element_type = VStr ''porte'',
                      SummaryItem.configuration = VStr ''simple'', count = 5\<rparr>,
                     \<lparr>SummaryItem.element_type = VStr ''placard'',
                      SummaryItem.configuration = VNone, count = 1\<rparr>]\<rparr>,
      \<lparr>db = Some (empty_db(''element'' :=
              [elem 1 pid_A VNone ''porte'' (VStr ''simple'') 2,
               elem 2 pid_A VNone ''porte'' (VStr ''simple'') 3,
               elem 3 pid_A VNone ''placard'' VNone 1])), next_oid = 4,
        log = [Aggregate ''element'']\<rparr>)"
  using project_summary_groups [OF is_valid_pid_A, of
      "\<lparr>db = Some (empty_db(''element'' :=
              [elem 1 pid_A VNone ''porte'' (VStr ''simple'') 2,
               elem 2 pid_A VNone ''porte'' (VStr ''simple'') 3,
               elem 3 pid_A VNone ''placard'' VNone 1])), next_oid = 4, log = []\<rparr>"
      "empty_db(''element'' :=
              [elem 1 pid_A VNone ''porte'' (VStr ''simple'') 2,
               elem 2 pid_A VNone ''porte'' (VStr ''simple'') 3,
               elem 3 pid_A VNone ''placard'' VNone 1])"]
  by (simp add: project_summary_def io_try_def bind_simps bind_aggregate Let_def is_valid_pid_A
      matches_single elem_def dict_get_def dict_get_default_def group_id_def)

section \<open>CSV export\<close>






section \<open>The serialisation contract\<close>

lemma map_of_plain_doc: "map_of (plain_doc d) k = map_option plain (map_of d k)"
  by (induction d) (auto simp: plain_doc_def)

lemma map_fst_plain_doc: "map fst (plain_doc d) = map fst d"
  by (induction d) (auto simp: plain_doc_def)

lemma dict_set_values: "(k', v') \<in> set (dict_set out k v) \<Longrightarrow> (k', v') \<in> set out \<or> v' = v"
  by (induction out) (auto split: if_splits)

lemma serialize_value_no_oid: "serialize_value v \<noteq> VObjectId i"
  by (cases v) simp_all

lemma serialize_loop_no_oid:
  "\<forall>k i. (k, VObjectId i) \<notin> set out \<Longrightarrow> (k, VObjectId i) \<notin> set (serialize_loop out d)"
proof (induction d arbitrary: out)
  case Nil
  then show ?case by simp
next
  case (Cons kv d)
  obtain k' v' where kv: "kv = (k', v')" by (cases kv)
  have "\<forall>k i. (k, VObjectId i) \<notin> set (dict_set out k' (serialize_value v'))"
    using Cons.prems dict_set_values serialize_value_no_oid by metis
  then show ?case
    unfolding kv serialize_loop.simps by (rule Cons.IH)
qed

lemma serialize_doc_no_oid: "serialize_doc x = Some d' \<Longrightarrow> (k, VObjectId i) \<notin> set d'"
proof (cases x)
  case None
  then show "serialize_doc x = Some d' \<Longrightarrow> ?thesis" by simp
next
  case (Some d)
  assume "serialize_doc x = Some d'"
  then have "d' = [] \<or> d' = serialize_loop [] d"
    using Some by (auto split: if_splits)
  then show ?thesis
    using serialize_loop_no_oid [of "[]" k i d] by auto
qed

lemma except_http_500_raises: "except_http_500 e w \<noteq> (Inr r, w')"
  by (cases e) (simp_all add: except_500_def io_raise_def)

text \<open>What each handler answers when it answers: a document of the store, or the
  documents of the store the query selects, passed through \<open>serialize_doc\<close>.\<close>

lemma create_project_serialized:
  assumes "create_project p w = (Inr r, w')"
  shows "\<exists>d'. db w' = Some d' \<and> r = serialize_doc (lookup d' ''project'' (fresh_oid (next_oid w)))"
proof (cases "db w")
  case None
  then show ?thesis
    using assms by (simp add: create_project_def io_defs create_document_def)
next
  case (Some d)
  show ?thesis
    using assms insert_then_reread [OF Some, of "''project''" "dump_Project p"]
    by (auto simp: create_project_def encodable_dump_Project)
qed

lemma get_project_serialized:
  assumes "get_project pid w = (Inr r, w')"
  shows "\<exists>d doc. db w = Some d \<and> lookup d ''project'' (oid_of_hex pid) = Some doc \<and>
           r = serialize_doc (Some doc)"
proof (cases "db w")
  case None
  then show ?thesis
    using assms by (simp add: get_project_def io_defs db_getitem_def not_subscriptable_def)
next
  case (Some d)
  show ?thesis
  proof (cases "is_valid pid")
    case False
    then show ?thesis
      using assms Some
      by (simp add: get_project_def io_try_def bind_simps PyObjectId_validate_def except_500_def)
  next
    case True
    then show ?thesis
      using assms Some
      by (cases "lookup d ''project'' (oid_of_hex pid)")
        (auto simp: get_project_def io_try_def bind_simps PyObjectId_validate_def ObjectId_valid
          falsy_lookup split: if_splits)
  qed
qed

lemma create_building_serialized:
  assumes "create_building p w = (Inr r, w')"
  shows "\<exists>d'. db w' = Some d' \<and> r = serialize_doc (lookup d' ''building'' (fresh_oid (next_oid w)))"
proof (cases "db w")
  case None
  then show ?thesis
    using assms
    by (simp add: create_building_def Let_def io_defs db_getitem_def split: if_splits)
next
  case (Some d)
  let ?w1 = "w\<lparr>log := log w @ [FindOne ''project'' (oid_of_hex (Building.project_id p))]\<rparr>"
  have db1: "db ?w1 = Some d"
    using Some by simp
  show ?thesis
    using assms Some insert_then_reread [OF db1, of "''building''" "dump_Building p"]
    by (auto simp: create_building_def Let_def bind_simps ObjectId_valid falsy_lookup
        encodable_dump_Building split: if_splits)
qed

lemma create_element_serialized:
  assumes "create_element p w = (Inr r, w')"
  shows "\<exists>d'. db w' = Some d' \<and> r = serialize_doc (lookup d' ''element'' (fresh_oid (next_oid w)))"
proof (cases "db w")
  case None
  then show ?thesis
    using assms
    by (simp add: create_element_def io_defs db_getitem_def split: if_splits)
next
  case (Some d)
  show ?thesis
    using assms unfolding create_element_run [OF Some]
    by (auto simp: Let_def split: if_splits)
qed

lemma list_projects_serialized:
  assumes "list_projects w = (Inr rs, w')"
  shows "\<exists>d. db w = Some d \<and> rs = map (\<lambda>x. serialize_doc (Some x)) (d ''project'')"
proof (cases "db w")
  case None
  then show ?thesis
    using assms by (simp add: list_projects_def io_defs get_documents_def)
next
  case (Some d)
  then show ?thesis
    using assms by (auto simp: list_projects_def io_try_def bind_simps matches_def)
qed

lemma list_buildings_serialized:
  assumes "list_buildings pid w = (Inr rs, w')"
  shows "\<exists>d. db w = Some d \<and>
           rs = map (\<lambda>x. serialize_doc (Some x))
                  (filter (\<lambda>b. dict_get b ''project_id'' = Some (VStr pid)) (d ''building''))"
proof (cases "db w")
  case None
  then show ?thesis
    using assms
    by (simp add: list_buildings_def io_defs get_documents_def split: if_splits)
next
  case (Some d)
  then show ?thesis
    using assms
    by (auto simp: list_buildings_def io_try_def bind_simps matches_project split: if_splits)
qed

lemma list_elements_serialized:
  assumes "list_elements pid bid w = (Inr rs, w')"
  shows "\<exists>d docs. db w = Some d \<and> set docs \<subseteq> set (project_elements d pid) \<and>
           rs = map (\<lambda>x. serialize_doc (Some x)) docs"
proof (cases "db w")
  case None
  then show ?thesis
    using assms
    by (simp add: list_elements_def io_defs get_documents_def split: if_splits)
next
  case (Some d)
  have sub: "set (filter (matches (dict_set [(''project_id'', VStr pid)] ''building_id'' v))
                 (d ''element'')) \<subseteq> set (project_elements d pid)" for v
    by (auto simp: project_elements_def matches_def)
  have all: "set (filter (matches [(''project_id'', VStr pid)]) (d ''element'')) \<subseteq>
      set (project_elements d pid)"
    by (simp add: filter_matches_project)
  show ?thesis
  proof (cases "is_valid pid")
    case False
    then show ?thesis
      using assms by (simp add: list_elements_def io_try_def bind_simps)
  next
    case valid: True
    show ?thesis
    proof (cases "truthy bid")
      case False
      then have "rs = map (\<lambda>x. serialize_doc (Some x))
                        (filter (matches [(''project_id'', VStr pid)]) (d ''element''))"
        using assms Some valid by (auto simp: list_elements_def io_try_def bind_simps)
      then show ?thesis
        using Some all by blast
    next
      case True
      show ?thesis
      proof (cases "is_valid (str_of bid)")
        case False
        then show ?thesis
          using assms Some valid True by (simp add: list_elements_def io_try_def bind_simps)
      next
        case bvalid: True
        have "rs = map (\<lambda>x. serialize_doc (Some x))
                     (filter (matches (dict_set [(''project_id'', VStr pid)] ''building_id''
                                 (VStr (str_of bid)))) (d ''element''))"
          using assms Some valid True bvalid
          by (auto simp: list_elements_def io_try_def bind_simps simp del: dict_set.simps)
        then show ?thesis
          using Some sub by blast
      qed
    qed
  qed
qed

lemma str_oid_pid_A: "str_oid (oid_of_hex pid_A) = pid_A"
  by (simp add: oid_of_hex_def pid_A_def is_hex_def is_space_def hex_val_def hexlify_def
      digit_char_def)


text \<open>
  C10. \<open>serialize_doc\<close> is a function of its argument alone. A missing and an empty
  document come back unchanged. For a dict, the keys come back in the same order, every
  identifier value, \<open>_id\<close> included, is replaced by its string form, and every other
  value is the one stored. Whatever the argument, no identifier value is left in the
  result. Every document a create, get or list operation answers is the result of
  \<open>serialize_doc\<close> on a document of the store: the one just inserted and read back, the
  one looked up, or each of the documents the query selects.
\<close>

theorem serialize_doc_contract:
  "serialize_doc None = None \<and> serialize_doc (Some []) = Some [] \<and>
   (well_keyed d \<longrightarrow>
      (\<exists>d'. serialize_doc (Some d) = Some d' \<and> map fst d' = map fst d \<and>
         (\<forall>k i. dict_get d k = Some (VObjectId i) \<longrightarrow> dict_get d' k = Some (VStr (str_oid i))) \<and>
         (\<forall>k v. dict_get d k = Some v \<and> (\<forall>i. v \<noteq> VObjectId i) \<longrightarrow> dict_get d' k = Some v))) \<and>
   (\<forall>x d' k i. serialize_doc x = Some d' \<longrightarrow> (k, VObjectId i) \<notin> set d') \<and>
   (\<forall>p w r w'. create_project p w = (Inr r, w') \<longrightarrow>
      (\<exists>d'. db w' = Some d' \<and> r = serialize_doc (lookup d' ''project'' (fresh_oid (next_oid w))))) \<and>
   (\<forall>pid w r w'. get_project pid w = (Inr r, w') \<longrightarrow>
      (\<exists>d doc. db w = Some d \<and> lookup d ''project'' (oid_of_hex pid) = Some doc \<and>
         r = serialize_doc (Some doc))) \<and>
   (\<forall>p w r w'. create_building p w = (Inr r, w') \<longrightarrow>
      (\<exists>d'. db w' = Some d' \<and> r = serialize_doc (lookup d' ''building'' (fresh_oid (next_oid w))))) \<and>
   (\<forall>p w r w'. create_element p w = (Inr r, w') \<longrightarrow>
      (\<exists>d'. db w' = Some d' \<and> r = serialize_doc (lookup d' ''element'' (fresh_oid (next_oid w))))) \<and>
   (\<forall>w rs w'. list_projects w = (Inr rs, w') \<longrightarrow>
      (\<exists>d. db w = Some d \<and> rs = map (\<lambda>x. serialize_doc (Some x)) (d ''project''))) \<and>
   (\<forall>pid w rs w'. list_buildings pid w = (Inr rs, w') \<longrightarrow>
      (\<exists>d. db w = Some d \<and>
         rs = map (\<lambda>x. serialize_doc (Some x))
                (filter (\<lambda>b. dict_get b ''project_id'' = Some (VStr pid)) (d ''building'')))) \<and>
   (\<forall>pid bid w rs w'. list_elements pid bid w = (Inr rs, w') \<longrightarrow>
      (\<exists>d docs. db w = Some d \<and> set docs \<subseteq> set (project_elements d pid) \<and>
         rs = map (\<lambda>x. serialize_doc (Some x)) docs))"
proof -
  have vals: "well_keyed d \<longrightarrow>
      (\<exists>d'. serialize_doc (Some d) = Some d' \<and> map fst d' = map fst d \<and>
         (\<forall>k i. dict_get d k = Some (VObjectId i) \<longrightarrow> dict_get d' k = Some (VStr (str_oid i))) \<and>
         (\<forall>k v. dict_get d k = Some v \<and> (\<forall>i. v \<noteq> VObjectId i) \<longrightarrow> dict_get d' k = Some v))"
  proof
    assume wk: "well_keyed d"
    have 1: "serialize_doc (Some d) = Some (plain_doc d)"
      using wk by (rule serialize_doc_plain)
    have 2: "map fst (plain_doc d) = map fst d"
      by (rule map_fst_plain_doc)
    have 3: "dict_get (plain_doc d) k = Some (VStr (str_oid i))"
      if "dict_get d k = Some (VObjectId i)" for k i
      using that by (simp add: dict_get_def map_of_plain_doc plain_def)
    have 4: "dict_get (plain_doc d) k = Some v"
      if "dict_get d k = Some v" and "\<forall>i. v \<noteq> VObjectId i" for k v
      using that by (cases v) (simp_all add: dict_get_def map_of_plain_doc plain_def)
    show "\<exists>d'. serialize_doc (Some d) = Some d' \<and> map fst d' = map fst d \<and>
         (\<forall>k i. dict_get d k = Some (VObjectId i) \<longrightarrow> dict_get d' k = Some (VStr (str_oid i))) \<and>
         (\<forall>k v. dict_get d k = Some v \<and> (\<forall>i. v \<noteq> VObjectId i) \<longrightarrow> dict_get d' k = Some v)"
      using 1 2 3 4 by blast
  qed
  show ?thesis
    apply (intro conjI)
    subgoal by simp
    subgoal by simp
    subgoal by (rule vals)
    subgoal using serialize_doc_no_oid by blast
    subgoal using create_project_serialized by blast
    subgoal using get_project_serialized by blast
    subgoal using create_building_serialized by blast
    subgoal using create_element_serialized by blast
    subgoal using list_projects_serialized by blast
    subgoal using list_buildings_serialized by blast
    subgoal using list_elements_serialized by blast
    done
qed

theorem serialize_doc_contract_witness:
  "serialize_doc (Some [(''_id'', VObjectId (fresh_oid 255)), (''name'', VStr ''Chantier''),
                        (''location'', VNone), (''parent'', VObjectId (oid_of_hex pid_A))]) =
     Some [(''_id'', VStr ''0000000000000000000000ff''), (''name'', VStr ''Chantier''),
           (''location'', VNone), (''parent'', VStr ''64b7f0c2a1d3e4f566778899'')] \<and>
   get_project pid_A \<lparr>db = Some (empty_db(''project'' := [project_A])), next_oid = 0, log = []\<rparr> =
     (Inr (Some [(''_id'', VStr ''64b7f0c2a1d3e4f566778899''), (''name'', VStr ''Chantier''),
                 (''project_type'', VStr ''Villa'')]),
      \<lparr>db = Some (empty_db(''project'' := [project_A])), next_oid = 0,
        log = [FindOne ''project'' (oid_of_hex pid_A)]\<rparr>)"
proof -
  let ?d = "[(''_id'', VObjectId (fresh_oid 255)), (''name'', VStr ''Chantier''),
             (''location'', VNone), (''parent'', VObjectId (oid_of_hex pid_A))]"
  let ?w = "\<lparr>db = Some (empty_db(''project'' := [project_A])), next_oid = 0, log = []\<rparr>"
  have wk: "well_keyed ?d"
    by (simp add: well_keyed_def)
  have run: "get_project pid_A ?w =
      (Inr (serialize_doc (Some project_A)),
       \<lparr>db = Some (empty_db(''project'' := [project_A])), next_oid = 0,
         log = [FindOne ''project'' (oid_of_hex pid_A)]\<rparr>)"
    by (simp add: get_project_def io_try_def bind_simps PyObjectId_validate_def ObjectId_valid
        is_valid_pid_A lookup_project_A falsy_def project_A_nonempty
        del: str_oid.simps serialize_doc.simps)
  have p: "serialize_doc (Some project_A) =
      Some [(''_id'', VStr ''64b7f0c2a1d3e4f566778899''), (''name'', VStr ''Chantier''),
            (''project_type'', VStr ''Villa'')]"
    using str_oid_pid_A by (simp add: project_A_def pid_A_def del: str_oid.simps)
  note inst = mp [OF conjunct1 [OF conjunct2 [OF conjunct2 [OF serialize_doc_contract [of ?d]]]] wk]
  have "serialize_doc (Some ?d) =
     Some [(''_id'', VStr ''0000000000000000000000ff''), (''name'', VStr ''Chantier''),
           (''location'', VNone), (''parent'', VStr ''64b7f0c2a1d3e4f566778899'')]"
    using inst str_oid_pid_A str_oid_fresh_255 by (simp add: pid_A_def del: str_oid.simps)
  then show ?thesis
    using run p by simp
qed

end
